theory Spec2Isabelle
  imports Complex_Main
begin

section \<open>Tensors\<close>

text \<open>
  The model (\<^verbatim>\<open>src/src/diffusers/models/vq_paella.py\<close>) works on 4D tensors
  (batch, channels, height, width). A tensor is its shape together with its elements.
  An element is a rational (every finite floating-point number is one) or a non-finite
  IEEE value (an infinity or a NaN).
\<close>

type_synonym dims = "nat \<times> nat \<times> nat \<times> nat"

datatype scalar = Fin rat | NonFin

record tensor =
  shape :: dims
  data :: "scalar list"

text \<open>
  Division and multiplication of an element by a scale factor in exact arithmetic, where
  a division by zero is not finite (and not HOL's \<open>x / 0 = 0\<close>). These are not the
  operations of the code, which computes in floating point and rounds: the arithmetic of
  the code is a parameter (\<open>scale_div\<close> and \<open>scale_mul\<close> below), and \<open>sdiv\<close> and \<open>smul\<close> are
  the instance a statement about exact arithmetic is made of.
\<close>

fun sdiv :: "scalar \<Rightarrow> rat \<Rightarrow> scalar" where
  "sdiv (Fin a) s = (if s = 0 then NonFin else Fin (a / s))"
| "sdiv NonFin s = NonFin"

fun smul :: "scalar \<Rightarrow> rat \<Rightarrow> scalar" where
  "smul (Fin a) s = Fin (a * s)"
| "smul NonFin s = NonFin"

datatype error = IndexError | RuntimeError | ValueError | AttributeError | ZeroDivisionError

section \<open>Layers\<close>

text \<open>
  The modules the constructor assembles, by their constructor arguments:
  \<open>Conv2d in out kernel_size stride padding bias\<close>,
  \<open>ConvTranspose2d in out kernel_size stride padding\<close>,
  \<open>MixingResidualBlock inp_channels embed_dim\<close>, \<open>BatchNorm2d num_features\<close>,
  \<open>PixelUnshuffle downscale_factor\<close>, \<open>PixelShuffle upscale_factor\<close> and
  \<open>Sequential\<close> of a list of modules.
\<close>

datatype layer =
    PixelUnshuffle nat
  | PixelShuffle nat
  | Conv2d nat nat nat nat nat bool
  | ConvTranspose2d nat nat nat nat nat
  | BatchNorm2d nat
  | MixingResidualBlock nat nat
  | Sequential "layer list"

text \<open>
  The shape rules of the PyTorch layers, as PyTorch documents them; a violated
  requirement raises (\<open>Inl\<close>). After its checks \<^verbatim>\<open>pixel_unshuffle\<close> returns a tensor with no
  elements as it is.
\<close>

definition pixel_unshuffle_shape :: "nat \<Rightarrow> dims \<Rightarrow> error + dims" where
  "pixel_unshuffle_shape r d =
     (case d of (b, c, h, w) \<Rightarrow>
        if r = 0 \<or> h mod r \<noteq> 0 \<or> w mod r \<noteq> 0 then Inl RuntimeError
        else if b * c * h * w = 0 then Inr (b, c, h, w)
        else Inr (b, c * r * r, h div r, w div r))"

definition pixel_shuffle_shape :: "nat \<Rightarrow> dims \<Rightarrow> error + dims" where
  "pixel_shuffle_shape r d =
     (case d of (b, c, h, w) \<Rightarrow>
        if r = 0 \<or> c mod (r * r) \<noteq> 0 then Inl RuntimeError
        else Inr (b, c div (r * r), h * r, w * r))"

definition conv2d_shape :: "nat \<Rightarrow> nat \<Rightarrow> nat \<Rightarrow> nat \<Rightarrow> nat \<Rightarrow> dims \<Rightarrow> error + dims" where
  "conv2d_shape cin cout k s p d =
     (case d of (b, c, h, w) \<Rightarrow>
        if c \<noteq> cin \<or> s = 0 \<or> h + 2 * p < k \<or> w + 2 * p < k then Inl RuntimeError
        else Inr (b, cout, (h + 2 * p - k) div s + 1, (w + 2 * p - k) div s + 1))"

definition conv_transpose2d_shape ::
  "nat \<Rightarrow> nat \<Rightarrow> nat \<Rightarrow> nat \<Rightarrow> nat \<Rightarrow> dims \<Rightarrow> error + dims" where
  "conv_transpose2d_shape cin cout k s p d =
     (case d of (b, c, h, w) \<Rightarrow>
        (let oh = (int h - 1) * int s - 2 * int p + int k;
             ow = (int w - 1) * int s - 2 * int p + int k
         in if c \<noteq> cin \<or> s = 0 \<or> oh < 1 \<or> ow < 1 then Inl RuntimeError
            else Inr (b, cout, nat oh, nat ow)))"

text \<open>
  Modelled from the spec: \<^verbatim>\<open>MixingResidualBlock\<close> (\<^verbatim>\<open>models/resnet.py\<close>, not among
  the sources) is "a network block that combines channel-mixing and spatial-mixing
  operations with a skip connection", built "at width \<^verbatim>\<open>c_levels[i]\<close> with inner
  expansion x4": it takes a tensor of that many channels and returns one of the same
  shape.
\<close>

definition mixing_residual_block_shape :: "nat \<Rightarrow> nat \<Rightarrow> dims \<Rightarrow> error + dims" where
  "mixing_residual_block_shape inp_channels embed_dim d =
     (case d of (b, c, h, w) \<Rightarrow> if c \<noteq> inp_channels then Inl RuntimeError else Inr d)"

section \<open>Module state and arithmetic\<close>

text \<open>
  A submodule is named as in the state dict: the attribute of the model and the
  indices below it (\<^verbatim>\<open>down_blocks.3.1\<close> is \<open>(''down_blocks'', [3, 1])\<close>).
\<close>

type_synonym path = "string \<times> nat list"

text \<open>
  The buffers of a \<^verbatim>\<open>BatchNorm2d\<close> (\<^verbatim>\<open>track_running_stats=True\<close>, the default), and
  the state of the whole module that a call can read or write: the \<^verbatim>\<open>training\<close> flag
  of \<^verbatim>\<open>nn.Module\<close> and the buffers of each batch normalisation. The weights are fixed.
\<close>

record bn_buffers =
  running_mean :: "scalar list"
  running_var :: "scalar list"
  num_batches_tracked :: nat

record module_state =
  training :: bool
  buffers :: "path \<Rightarrow> bn_buffers"

text \<open>
  The arithmetic of the layers, with the weights of the instance, is a parameter:
  the values a stateless layer computes, the values batch normalisation computes from
  the batch statistics (training) or from the running statistics (evaluation), the
  momentum update of the running statistics, the vector quantizer's forward, and the
  division and the multiplication of an element by a Python float (in the code a
  floating-point operation, which rounds).
\<close>

record numerics =
  layer_values :: "path \<Rightarrow> tensor \<Rightarrow> scalar list"
  bn_batch_values :: "path \<Rightarrow> tensor \<Rightarrow> scalar list"
  bn_running_values :: "path \<Rightarrow> bn_buffers \<Rightarrow> tensor \<Rightarrow> scalar list"
  bn_running_update :: "bn_buffers \<Rightarrow> tensor \<Rightarrow> scalar list \<times> scalar list"
  vq_values :: "tensor \<Rightarrow> scalar list \<times> scalar \<times> nat list"
  scale_div :: "scalar \<Rightarrow> rat \<Rightarrow> scalar"
  scale_mul :: "scalar \<Rightarrow> rat \<Rightarrow> scalar"

text \<open>\<^verbatim>\<open>t / s\<close> and \<^verbatim>\<open>t * s\<close> of a tensor and a Python float: elementwise, same shape.\<close>

definition tdiv :: "numerics \<Rightarrow> tensor \<Rightarrow> rat \<Rightarrow> tensor" where
  "tdiv N t s = t\<lparr>data := map (\<lambda>v. scale_div N v s) (data t)\<rparr>"

definition tmul :: "numerics \<Rightarrow> tensor \<Rightarrow> rat \<Rightarrow> tensor" where
  "tmul N t s = t\<lparr>data := map (\<lambda>v. scale_mul N v s) (data t)\<rparr>"

text \<open>An arithmetic whose division and multiplication by the scale factor are exact.\<close>

definition exact_arithmetic :: "numerics \<Rightarrow> bool" where
  "exact_arithmetic N \<longleftrightarrow> scale_div N = sdiv \<and> scale_mul N = smul"

type_synonym 'a result = "(error + 'a) \<times> module_state"

definition stateless ::
  "numerics \<Rightarrow> path \<Rightarrow> module_state \<Rightarrow> tensor \<Rightarrow> error + dims \<Rightarrow> tensor result" where
  "stateless N pth st x r =
     (case r of
        Inl e \<Rightarrow> (Inl e, st)
      | Inr d \<Rightarrow> (Inr \<lparr>shape = d, data = layer_values N pth x\<rparr>, st))"

text \<open>
  \<^verbatim>\<open>BatchNorm2d.forward\<close> of PyTorch: in training mode it first increments
  \<^verbatim>\<open>num_batches_tracked\<close>, then refuses a batch with one value per channel
  (ValueError), normalises with the batch statistics and updates the running
  statistics; in evaluation mode it normalises with the running statistics and
  writes nothing. A channel count other than \<^verbatim>\<open>num_features\<close> raises.
\<close>

definition batch_norm2d ::
  "numerics \<Rightarrow> path \<Rightarrow> nat \<Rightarrow> module_state \<Rightarrow> tensor \<Rightarrow> tensor result" where
  "batch_norm2d N pth num_features st x =
     (case shape x of (b, c, h, w) \<Rightarrow>
        if training st then
          (let bufs = buffers st pth;
               bufs1 = bufs\<lparr>num_batches_tracked := num_batches_tracked bufs + 1\<rparr>;
               st1 = st\<lparr>buffers := (buffers st)(pth := bufs1)\<rparr>
           in if b * h * w = 1 then (Inl ValueError, st1)
              else if c \<noteq> num_features then (Inl RuntimeError, st1)
              else (Inr \<lparr>shape = shape x, data = bn_batch_values N pth x\<rparr>,
                    st\<lparr>buffers := (buffers st)(pth :=
                         bufs1\<lparr>running_mean := fst (bn_running_update N bufs x),
                               running_var := snd (bn_running_update N bufs x)\<rparr>)\<rparr>))
        else if c \<noteq> num_features then (Inl RuntimeError, st)
        else (Inr \<lparr>shape = shape x, data = bn_running_values N pth (buffers st pth) x\<rparr>, st))"

text \<open>
  Calling a module. \<^verbatim>\<open>nn.Sequential\<close> calls its children in order, each on the
  result of the one before; an exception ends the call.
\<close>

fun run_layer :: "numerics \<Rightarrow> path \<Rightarrow> layer \<Rightarrow> module_state \<Rightarrow> tensor \<Rightarrow> tensor result"
and run_layers ::
  "numerics \<Rightarrow> path \<Rightarrow> nat \<Rightarrow> layer list \<Rightarrow> module_state \<Rightarrow> tensor \<Rightarrow> tensor result" where
  "run_layer N pth (PixelUnshuffle r) st x =
     stateless N pth st x (pixel_unshuffle_shape r (shape x))"
| "run_layer N pth (PixelShuffle r) st x =
     stateless N pth st x (pixel_shuffle_shape r (shape x))"
| "run_layer N pth (Conv2d cin cout k s p bias) st x =
     stateless N pth st x (conv2d_shape cin cout k s p (shape x))"
| "run_layer N pth (ConvTranspose2d cin cout k s p) st x =
     stateless N pth st x (conv_transpose2d_shape cin cout k s p (shape x))"
| "run_layer N pth (MixingResidualBlock c e) st x =
     stateless N pth st x (mixing_residual_block_shape c e (shape x))"
| "run_layer N pth (BatchNorm2d n) st x = batch_norm2d N pth n st x"
| "run_layer N pth (Sequential ls) st x = run_layers N pth 0 ls st x"
| "run_layers N pth i [] st x = (Inr x, st)"
| "run_layers N pth i (l # ls) st x =
     (case run_layer N (fst pth, snd pth @ [i]) l st x of
        (Inl e, st1) \<Rightarrow> (Inl e, st1)
      | (Inr y, st1) \<Rightarrow> run_layers N pth (Suc i) ls st1 y)"

section \<open>Construction\<close>

record config =
  in_channels :: nat
  out_channels :: nat
  up_down_scale_factor :: nat
  levels :: nat
  bottleneck_blocks :: nat
  c_hidden :: nat
  c_latent :: nat
  codebook_size :: nat
  scale_factor :: rat

definition default_config :: config where
  "default_config =
     \<lparr>in_channels = 3, out_channels = 3, up_down_scale_factor = 2, levels = 2,
      bottleneck_blocks = 12, c_hidden = 384, c_latent = 4, codebook_size = 8192,
      scale_factor = 3764 / 10000\<rparr>"

text \<open>\<^verbatim>\<open>VectorQuantizer(codebook_size, vq_embed_dim=c_latent, legacy=False, beta=0.25)\<close>\<close>

record vector_quantizer =
  n_e :: nat
  vq_embed_dim :: nat
  legacy :: bool
  beta :: rat

record VQModelPaella =
  config :: config
  in_block :: layer
  down_blocks :: layer
  vquantizer :: vector_quantizer
  up_blocks :: layer
  out_block :: layer

text \<open>\<^verbatim>\<open>[c_hidden // (2**i) for i in reversed(range(levels))]\<close>\<close>

definition c_levels_of :: "nat \<Rightarrow> nat \<Rightarrow> nat list" where
  "c_levels_of hidden n = map (\<lambda>i. hidden div 2 ^ i) (rev [0..<n])"

text \<open>
  Modelled from the spec: the constructor of \<^verbatim>\<open>MixingResidualBlock\<close> (\<^verbatim>\<open>models/resnet.py\<close>,
  not among the sources). The spec builds the block "at width \<^verbatim>\<open>c_levels[i]\<close>"; a block
  of width 0 is not built: its channel-wise (depthwise) convolution would have no
  group, which PyTorch's \<^verbatim>\<open>Conv2d\<close> refuses with ValueError.
\<close>

definition mixing_residual_block_init :: "nat \<Rightarrow> nat \<Rightarrow> error + layer" where
  "mixing_residual_block_init inp_channels embed_dim =
     (if inp_channels = 0 then Inl ValueError
      else Inr (MixingResidualBlock inp_channels embed_dim))"

text \<open>
  Modelled from the spec: the constructor of \<^verbatim>\<open>VectorQuantizer\<close> (\<^verbatim>\<open>models/vae.py\<close>, not
  among the sources), which holds "a codebook of fixed size/dimension". It initialises
  the codebook within \<^verbatim>\<open>1.0 / n_e\<close> of zero, a Python division that raises
  ZeroDivisionError for an empty codebook.
\<close>

definition vector_quantizer_init ::
  "nat \<Rightarrow> nat \<Rightarrow> bool \<Rightarrow> rat \<Rightarrow> error + vector_quantizer" where
  "vector_quantizer_init n d leg b =
     (if n = 0 then Inl ZeroDivisionError
      else Inr \<lparr>n_e = n, vq_embed_dim = d, legacy = leg, beta = b\<rparr>)"

text \<open>A \<^verbatim>\<open>for\<close> loop whose body can raise: the first exception ends it.\<close>

fun for_loop :: "('i \<Rightarrow> 'a \<Rightarrow> error + 'a) \<Rightarrow> 'i list \<Rightarrow> 'a \<Rightarrow> error + 'a" where
  "for_loop body [] acc = Inr acc"
| "for_loop body (i # js) acc =
     (case body i acc of Inl e \<Rightarrow> Inl e | Inr acc1 \<Rightarrow> for_loop body js acc1)"

text \<open>The body of the loop that fills \<^verbatim>\<open>down_blocks\<close>, at index \<open>i\<close>.\<close>

definition down_step :: "nat list \<Rightarrow> nat \<Rightarrow> layer list \<Rightarrow> error + layer list" where
  "down_step cl i acc =
     (let acc1 = (if i > 0 then acc @ [Conv2d (cl ! (i - 1)) (cl ! i) 4 2 1 True] else acc)
      in case mixing_residual_block_init (cl ! i) (cl ! i * 4) of
           Inl e \<Rightarrow> Inl e
         | Inr block \<Rightarrow> Inr (acc1 @ [block]))"

text \<open>The body of the loop that fills \<^verbatim>\<open>up_blocks\<close>, at index \<open>i\<close>, with its inner loop.\<close>

definition up_step ::
  "nat list \<Rightarrow> nat \<Rightarrow> nat \<Rightarrow> nat \<Rightarrow> layer list \<Rightarrow> error + layer list" where
  "up_step cl n bottleneck i acc =
     (case for_loop
             (\<lambda>j a. case mixing_residual_block_init (cl ! (n - 1 - i)) (cl ! (n - 1 - i) * 4) of
                      Inl e \<Rightarrow> Inl e
                    | Inr block \<Rightarrow> Inr (a @ [block]))
             [0..<(if i = 0 then bottleneck else 1)] acc of
        Inl e \<Rightarrow> Inl e
      | Inr acc1 \<Rightarrow>
          if i < n - 1
          then Inr (acc1 @ [ConvTranspose2d (cl ! (n - 1 - i)) (cl ! (n - 2 - i)) 4 2 1])
          else Inr acc1)"

text \<open>
  \<^verbatim>\<open>__init__\<close>, in the order of its statements. With \<open>levels = 0\<close> the schedule is empty and
  \<^verbatim>\<open>c_levels[0]\<close> raises IndexError; a block of width 0 and an empty codebook raise in
  their constructors. The counts are natural numbers, on which Python's \<^verbatim>\<open>//\<close> is
  \<open>div\<close>.
\<close>

definition init :: "config \<Rightarrow> error + VQModelPaella" where
  "init cfg =
     (let n = levels cfg;
          r = up_down_scale_factor cfg;
          cl = c_levels_of (c_hidden cfg) n
      in if cl = [] then Inl IndexError
         else
           (case for_loop (down_step cl) [0..<n] [] of
              Inl e \<Rightarrow> Inl e
            | Inr down \<Rightarrow>
                (case vector_quantizer_init (codebook_size cfg) (c_latent cfg) False (1 / 4) of
                   Inl e \<Rightarrow> Inl e
                 | Inr vq \<Rightarrow>
                     (case for_loop (up_step cl n (bottleneck_blocks cfg)) [0..<n]
                             [Sequential [Conv2d (c_latent cfg) (last cl) 1 1 0 True]] of
                        Inl e \<Rightarrow> Inl e
                      | Inr up \<Rightarrow>
                          Inr \<lparr>config = cfg,
                               in_block = Sequential
                                 [PixelUnshuffle r,
                                  Conv2d (in_channels cfg * r ^ 2) (cl ! 0) 1 1 0 True],
                               down_blocks = Sequential
                                 (down @ [Sequential
                                    [Conv2d (last cl) (c_latent cfg) 1 1 0 False,
                                     BatchNorm2d (c_latent cfg)]]),
                               vquantizer = vq,
                               up_blocks = Sequential up,
                               out_block = Sequential
                                 [Conv2d (cl ! 0) (out_channels cfg * r ^ 2) 1 1 0 True,
                                  PixelShuffle r]\<rparr>))))"

text \<open>
  A new \<^verbatim>\<open>nn.Module\<close> is in training mode; a new \<^verbatim>\<open>BatchNorm2d\<close> has running mean 0,
  running variance 1 and has tracked no batch. \<^verbatim>\<open>eval()\<close> clears the training flag.
\<close>

definition new_state :: "config \<Rightarrow> module_state" where
  "new_state cfg =
     \<lparr>training = True,
      buffers = (\<lambda>pth. \<lparr>running_mean = replicate (c_latent cfg) (Fin 0),
                        running_var = replicate (c_latent cfg) (Fin 1),
                        num_batches_tracked = 0\<rparr>)\<rparr>"

definition eval_mode :: "module_state \<Rightarrow> module_state" where
  "eval_mode st = st\<lparr>training := False\<rparr>"

section \<open>encode, decode, forward\<close>

datatype model_output = Tuple1 tensor | VQEncoderOutput tensor | DecoderOutput tensor

text \<open>The attributes \<^verbatim>\<open>.latents\<close> and \<^verbatim>\<open>.sample\<close> of the output classes.\<close>

fun latents :: "model_output \<Rightarrow> error + tensor" where
  "latents (VQEncoderOutput h) = Inr h"
| "latents _ = Inl AttributeError"

fun sample :: "model_output \<Rightarrow> error + tensor" where
  "sample (DecoderOutput x) = Inr x"
| "sample _ = Inl AttributeError"

text \<open>
  Modelled from the spec: \<^verbatim>\<open>VectorQuantizer.forward\<close> (\<^verbatim>\<open>models/vae.py\<close>, not among the
  sources): "given a continuous latent tensor and a codebook of fixed size/dimension,
  returns (quantized tensor of identical shape, commitment-loss scalar, auxiliary
  info)".
\<close>

definition vquantizer_forward ::
  "numerics \<Rightarrow> vector_quantizer \<Rightarrow> tensor \<Rightarrow> tensor \<times> scalar \<times> nat list" where
  "vquantizer_forward N vq z =
     (case vq_values N z of (q, loss, info) \<Rightarrow> (\<lparr>shape = shape z, data = q\<rparr>, loss, info))"

definition encode ::
  "numerics \<Rightarrow> VQModelPaella \<Rightarrow> module_state \<Rightarrow> tensor \<Rightarrow> bool \<Rightarrow> model_output result" where
  "encode N m st x return_dict =
     (case run_layer N (''in_block'', []) (in_block m) st x of
        (Inl e, st1) \<Rightarrow> (Inl e, st1)
      | (Inr h, st1) \<Rightarrow>
          (case run_layer N (''down_blocks'', []) (down_blocks m) st1 h of
             (Inl e, st2) \<Rightarrow> (Inl e, st2)
           | (Inr h1, st2) \<Rightarrow>
               (let h2 = tdiv N h1 (scale_factor (config m))
                in if \<not> return_dict then (Inr (Tuple1 h2), st2)
                   else (Inr (VQEncoderOutput h2), st2))))"

text \<open>The first statement of \<^verbatim>\<open>decode\<close>: the tensor handed to the decoder blocks.\<close>

definition decode_quant :: "numerics \<Rightarrow> VQModelPaella \<Rightarrow> tensor \<Rightarrow> bool \<Rightarrow> tensor" where
  "decode_quant N m h force_not_quantize =
     (if \<not> force_not_quantize
      then (case vquantizer_forward N (vquantizer m) (tmul N h (scale_factor (config m))) of
              (quant, _, _) \<Rightarrow> quant)
      else tmul N h (scale_factor (config m)))"

text \<open>The rest of \<^verbatim>\<open>decode\<close>: \<^verbatim>\<open>up_blocks\<close>, \<^verbatim>\<open>out_block\<close> and the return.\<close>

definition decode_blocks ::
  "numerics \<Rightarrow> VQModelPaella \<Rightarrow> module_state \<Rightarrow> tensor \<Rightarrow> bool \<Rightarrow> model_output result" where
  "decode_blocks N m st quant return_dict =
     (case run_layer N (''up_blocks'', []) (up_blocks m) st quant of
        (Inl e, st1) \<Rightarrow> (Inl e, st1)
      | (Inr x, st1) \<Rightarrow>
          (case run_layer N (''out_block'', []) (out_block m) st1 x of
             (Inl e, st2) \<Rightarrow> (Inl e, st2)
           | (Inr dec, st2) \<Rightarrow>
               if \<not> return_dict then (Inr (Tuple1 dec), st2)
               else (Inr (DecoderOutput dec), st2)))"

definition decode ::
  "numerics \<Rightarrow> VQModelPaella \<Rightarrow> module_state \<Rightarrow> tensor \<Rightarrow> bool \<Rightarrow> bool \<Rightarrow> model_output result" where
  "decode N m st h force_not_quantize return_dict =
     decode_blocks N m st (decode_quant N m h force_not_quantize) return_dict"

text \<open>
  \<^verbatim>\<open>forward\<close> calls \<^verbatim>\<open>self.encode(x)\<close> and \<^verbatim>\<open>self.decode(h)\<close> with their defaults:
  \<^verbatim>\<open>return_dict=True\<close> and \<^verbatim>\<open>force_not_quantize=True\<close>.
\<close>

definition forward ::
  "numerics \<Rightarrow> VQModelPaella \<Rightarrow> module_state \<Rightarrow> tensor \<Rightarrow> bool \<Rightarrow> model_output result" where
  "forward N m st smp return_dict =
     (case encode N m st smp True of
        (Inl e, st1) \<Rightarrow> (Inl e, st1)
      | (Inr eo, st1) \<Rightarrow>
          (case latents eo of
             Inl e \<Rightarrow> (Inl e, st1)
           | Inr h \<Rightarrow>
               (case decode N m st1 h True True of
                  (Inl e, st2) \<Rightarrow> (Inl e, st2)
                | (Inr d, st2) \<Rightarrow>
                    (case sample d of
                       Inl e \<Rightarrow> (Inl e, st2)
                     | Inr dec \<Rightarrow>
                         if \<not> return_dict then (Inr (Tuple1 dec), st2)
                         else (Inr (DecoderOutput dec), st2)))))"

section \<open>What the loops build\<close>

text \<open>
  The lists the two loops of the constructor build when no block constructor raises
  (lemmas \<open>for_loop_down\<close> and \<open>for_loop_up\<close> below).
\<close>

definition down_layers :: "nat list \<Rightarrow> nat \<Rightarrow> layer list \<Rightarrow> layer list" where
  "down_layers cl i acc =
     (let acc1 = (if i > 0 then acc @ [Conv2d (cl ! (i - 1)) (cl ! i) 4 2 1 True] else acc)
      in acc1 @ [MixingResidualBlock (cl ! i) (cl ! i * 4)])"

definition up_layers :: "nat list \<Rightarrow> nat \<Rightarrow> nat \<Rightarrow> nat \<Rightarrow> layer list \<Rightarrow> layer list" where
  "up_layers cl n bottleneck i acc =
     (let acc1 = fold (\<lambda>j a. a @ [MixingResidualBlock (cl ! (n - 1 - i)) (cl ! (n - 1 - i) * 4)])
                   [0..<(if i = 0 then bottleneck else 1)] acc
      in if i < n - 1
         then acc1 @ [ConvTranspose2d (cl ! (n - 1 - i)) (cl ! (n - 2 - i)) 4 2 1]
         else acc1)"

section \<open>Shapes of a run\<close>

text \<open>
  The shape a module returns for an input shape, or the exception it raises, in
  training mode (\<open>tr\<close>) or not: the shape part of \<open>run_layer\<close>, which lemma
  \<open>run_shape\<close> below shows it to be.
\<close>

fun out_shape :: "bool \<Rightarrow> layer \<Rightarrow> dims \<Rightarrow> error + dims"
and out_shapes :: "bool \<Rightarrow> layer list \<Rightarrow> dims \<Rightarrow> error + dims" where
  "out_shape tr (PixelUnshuffle r) d = pixel_unshuffle_shape r d"
| "out_shape tr (PixelShuffle r) d = pixel_shuffle_shape r d"
| "out_shape tr (Conv2d cin cout k s p bias) d = conv2d_shape cin cout k s p d"
| "out_shape tr (ConvTranspose2d cin cout k s p) d = conv_transpose2d_shape cin cout k s p d"
| "out_shape tr (MixingResidualBlock c e) d = mixing_residual_block_shape c e d"
| "out_shape tr (BatchNorm2d n) d =
     (case d of (b, c, h, w) \<Rightarrow>
        if tr \<and> b * h * w = 1 then Inl ValueError
        else if c \<noteq> n then Inl RuntimeError else Inr d)"
| "out_shape tr (Sequential ls) d = out_shapes tr ls d"
| "out_shapes tr [] d = Inr d"
| "out_shapes tr (l # ls) d =
     (case out_shape tr l d of Inl e \<Rightarrow> Inl e | Inr d1 \<Rightarrow> out_shapes tr ls d1)"

fun result_shape :: "error + tensor \<Rightarrow> error + dims" where
  "result_shape (Inl e) = Inl e"
| "result_shape (Inr t) = Inr (shape t)"

text \<open>The tensor an output carries.\<close>

fun output_tensor :: "model_output \<Rightarrow> tensor" where
  "output_tensor (Tuple1 t) = t"
| "output_tensor (VQEncoderOutput t) = t"
| "output_tensor (DecoderOutput t) = t"

text \<open>
  A configuration whose every layer has at least one channel, with at least one level
  and a positive spatial factor.
\<close>

definition valid_config :: "config \<Rightarrow> bool" where
  "valid_config cfg \<longleftrightarrow>
     0 < in_channels cfg \<and> 0 < out_channels cfg \<and> 0 < up_down_scale_factor cfg \<and>
     0 < levels cfg \<and> 2 ^ (levels cfg - 1) \<le> c_hidden cfg \<and> 0 < c_latent cfg \<and>
     0 < codebook_size cfg"

section \<open>Concrete inputs\<close>

text \<open>
  An arithmetic that returns no values, for concrete runs: the shape, the exception and
  the state of a run do not depend on the arithmetic. A black image of a given shape.
\<close>

definition null_numerics :: numerics where
  "null_numerics =
     \<lparr>layer_values = (\<lambda>pth t. []), bn_batch_values = (\<lambda>pth t. []),
      bn_running_values = (\<lambda>pth bufs t. []), bn_running_update = (\<lambda>bufs t. ([], [])),
      vq_values = (\<lambda>t. ([], Fin 0, [])), scale_div = sdiv, scale_mul = smul\<rparr>"

definition image :: "nat \<Rightarrow> nat \<Rightarrow> nat \<Rightarrow> nat \<Rightarrow> tensor" where
  "image b c h w = \<lparr>shape = (b, c, h, w), data = replicate (b * c * h * w) (Fin 0)\<rparr>"

text \<open>Four configurations that differ from the default in one field.\<close>

definition scale3_config :: config where
  "scale3_config = default_config\<lparr>up_down_scale_factor := 3\<rparr>"

definition mono_out_config :: config where
  "mono_out_config = default_config\<lparr>out_channels := 1\<rparr>"

definition odd_hidden_config :: config where
  "odd_hidden_config = default_config\<lparr>c_hidden := 5\<rparr>"

definition tiny_hidden_config :: config where
  "tiny_hidden_config = default_config\<lparr>c_hidden := 1\<rparr>"

text \<open>
  An arithmetic that records what is applied: every layer puts a number for its place
  in the model (\<open>10001\<close> for \<^verbatim>\<open>in_block.0\<close>, \<open>20402\<close> for \<^verbatim>\<open>down_blocks.3.1\<close>) before the
  elements it was given, the quantizer puts \<open>50000\<close>, and the division and the
  multiplication by the scale factor are exact. The elements of a result then list
  the layers it went through, the last one first.
\<close>

definition path_code :: "path \<Rightarrow> rat" where
  "path_code pth =
     of_nat ((if fst pth = ''in_block'' then 10000
              else if fst pth = ''down_blocks'' then 20000
              else if fst pth = ''up_blocks'' then 30000 else 40000)
             + foldl (\<lambda>a i. 100 * a + i + 1) 0 (snd pth))"

definition trace_numerics :: numerics where
  "trace_numerics =
     \<lparr>layer_values = (\<lambda>pth t. Fin (path_code pth) # data t),
      bn_batch_values = (\<lambda>pth t. Fin (path_code pth) # data t),
      bn_running_values = (\<lambda>pth bufs t. Fin (path_code pth) # data t),
      bn_running_update = (\<lambda>bufs t. (running_mean bufs, running_var bufs)),
      vq_values = (\<lambda>t. (Fin 50000 # data t, Fin 0, [])),
      scale_div = sdiv, scale_mul = smul\<rparr>"

text \<open>An arithmetic whose division rounds the quotient down to an integer.\<close>

definition floor_numerics :: numerics where
  "floor_numerics =
     null_numerics\<lparr>scale_div :=
       (\<lambda>v s. case v of Fin a \<Rightarrow> if s = 0 then NonFin else Fin (of_int \<lfloor>a / s\<rfloor>)
              | NonFin \<Rightarrow> NonFin)\<rparr>"

section \<open>The composition a caller writes\<close>

text \<open>
  \<^verbatim>\<open>decode(encode(x).latents, force_not_quantize=True, return_dict=return_dict)\<close>, as two
  calls on the same instance, the second in the state the first leaves.
\<close>

definition decode_encode ::
  "numerics \<Rightarrow> VQModelPaella \<Rightarrow> module_state \<Rightarrow> tensor \<Rightarrow> bool \<Rightarrow> model_output result" where
  "decode_encode N m st x return_dict =
     (case encode N m st x True of
        (Inl e, st1) \<Rightarrow> (Inl e, st1)
      | (Inr eo, st1) \<Rightarrow>
          (case latents eo of
             Inl e \<Rightarrow> (Inl e, st1)
           | Inr h \<Rightarrow> decode N m st1 h True return_dict))"

section \<open>States that answer alike\<close>

text \<open>
  Two states of an instance in the same mode which, in evaluation mode, hold the same
  buffers. (In training mode batch normalisation reads the batch, not the buffers.)
\<close>

definition same_mode :: "module_state \<Rightarrow> module_state \<Rightarrow> bool" where
  "same_mode st st' \<longleftrightarrow>
     training st = training st' \<and> (training st \<or> buffers st = buffers st')"

text \<open>A result whose tensor, if any, is wrapped in an output class or a tuple.\<close>

fun wrap_result :: "(tensor \<Rightarrow> model_output) \<Rightarrow> tensor result \<Rightarrow> model_output result" where
  "wrap_result C (Inl e, st) = (Inl e, st)"
| "wrap_result C (Inr t, st) = (Inr (C t), st)"

text \<open>A module with no batch normalisation inside.\<close>

fun bn_free :: "layer \<Rightarrow> bool" and bn_free_list :: "layer list \<Rightarrow> bool" where
  "bn_free (BatchNorm2d n) = False"
| "bn_free (Sequential ls) = bn_free_list ls"
| "bn_free (PixelUnshuffle r) = True"
| "bn_free (PixelShuffle r) = True"
| "bn_free (Conv2d cin cout k s p bias) = True"
| "bn_free (ConvTranspose2d cin cout k s p) = True"
| "bn_free (MixingResidualBlock c e) = True"
| "bn_free_list [] = True"
| "bn_free_list (l # ls) = (bn_free l \<and> bn_free_list ls)"

section \<open>Shapes: the layers and the blocks\<close>

text \<open>
  A run returns the shape \<open>out_shape\<close> computes and keeps the mode; the loops of the
  constructor build cascades that halve (down) and double (up) the resolution at each
  level after the first.
\<close>

lemma stateless_fst: "result_shape (fst (stateless N pth st x r)) = r"
  by (cases r) (simp_all add: stateless_def)

lemma stateless_snd: "snd (stateless N pth st x r) = st"
  by (cases r) (simp_all add: stateless_def)

lemma batch_norm2d_shape:
  "result_shape (fst (batch_norm2d N pth n st x)) = out_shape (training st) (BatchNorm2d n) (shape x)"
  by (cases "shape x") (simp add: batch_norm2d_def Let_def)

lemma batch_norm2d_training:
  "training (snd (batch_norm2d N pth n st x)) = training st"
  by (cases "shape x") (simp add: batch_norm2d_def Let_def)

lemma run_shape:
  "result_shape (fst (run_layer N pth l st x)) = out_shape (training st) l (shape x)
     \<and> training (snd (run_layer N pth l st x)) = training st"
  "result_shape (fst (run_layers N pth i ls st x)) = out_shapes (training st) ls (shape x)
     \<and> training (snd (run_layers N pth i ls st x)) = training st"
proof (induction N pth l st x and N pth i ls st x rule: run_layer_run_layers.induct)
  case (9 N pth i l ls st x)
  show ?case
  proof (cases "run_layer N (fst pth, snd pth @ [i]) l st x")
    case (Pair r st1)
    show ?thesis
    proof (cases r)
      case (Inl e)
      with Pair 9(1) show ?thesis by (cases "out_shape (training st) l (shape x)") auto
    next
      case (Inr y)
      with Pair 9(1) 9(2)[OF Pair[symmetric] Inr] show ?thesis
        by (cases "out_shape (training st) l (shape x)") auto
    qed
  qed
qed (simp_all add: stateless_fst stateless_snd batch_norm2d_shape batch_norm2d_training del: out_shape.simps(6))

lemma out_shapes_append:
  "out_shapes tr (xs @ ys) d =
     (case out_shapes tr xs d of Inl e \<Rightarrow> Inl e | Inr d1 \<Rightarrow> out_shapes tr ys d1)"
  by (induction xs arbitrary: d) (auto split: sum.splits)




lemma fold_upt_Suc: "fold f [0..<Suc k] acc = f k (fold f [0..<k] acc)"
  by simp

lemma fold_snoc_replicate: "fold (\<lambda>j a. a @ [x]) js acc = acc @ replicate (length js) x"
  by (induction js arbitrary: acc) (simp_all add: replicate_app_Cons_same)

lemma out_shapes_replicate_mixing:
  "out_shapes tr (replicate j (MixingResidualBlock c e)) (b, c, h, w) = Inr (b, c, h, w)"
  by (induction j) (simp_all add: mixing_residual_block_shape_def)

lemma conv_halves:
  "2 \<le> h \<Longrightarrow> 2 \<le> w \<Longrightarrow>
   conv2d_shape c c' 4 2 (Suc 0) (b, c, h, w) = Inr (b, c', h div 2, w div 2)"
  by (simp add: conv2d_shape_def) arith

lemma two_le_div: "2 ^ Suc j \<le> (h::nat) \<Longrightarrow> 2 \<le> h div 2 ^ j"
  by (simp add: less_eq_div_iff_mult_less_eq mult.commute)

lemma down_layers_shape:
  assumes "out_shapes tr acc d0 = Inr (b, cl ! j, h, w)" "2 \<le> h" "2 \<le> w"
  shows "out_shapes tr (down_layers cl (Suc j) acc) d0 = Inr (b, cl ! Suc j, h div 2, w div 2)"
  using assms
  by (simp add: down_layers_def out_shapes_append mixing_residual_block_shape_def conv_halves)

lemma down_shape:
  "2 ^ k \<le> h \<Longrightarrow> 2 ^ k \<le> w \<Longrightarrow>
   out_shapes tr (fold (down_layers cl) [0..<Suc k] []) (b, cl ! 0, h, w)
     = Inr (b, cl ! k, h div 2 ^ k, w div 2 ^ k)"
proof (induction k)
  case 0
  show ?case by (simp add: down_layers_def mixing_residual_block_shape_def)
next
  case (Suc k)
  have le: "2 ^ k \<le> h" "2 ^ k \<le> w" using Suc.prems by simp_all
  have two: "2 \<le> h div 2 ^ k" "2 \<le> w div 2 ^ k"
    using Suc.prems by (simp_all only: two_le_div)
  have "out_shapes tr (down_layers cl (Suc k) (fold (down_layers cl) [0..<Suc k] [])) (b, cl ! 0, h, w)
      = Inr (b, cl ! Suc k, h div 2 ^ k div 2, w div 2 ^ k div 2)"
    by (rule down_layers_shape[OF Suc.IH[OF le] two])
  then show ?case
    by (simp only: fold_upt_Suc[of _ "Suc k"] div_mult2_eq power_Suc2)
qed

lemma conv_transpose_doubles:
  "0 < h \<Longrightarrow> 0 < w \<Longrightarrow>
   conv_transpose2d_shape c c' 4 2 (Suc 0) (b, c, h, w) = Inr (b, c', h * 2, w * 2)"
  by (simp add: conv_transpose2d_shape_def Let_def nat_eq_iff algebra_simps)

lemma up_layers_shape:
  assumes "out_shapes tr acc d0 = Inr (b, cl ! (n - 1 - i), h, w)" "0 < h" "0 < w"
  shows "out_shapes tr (up_layers cl n bb i acc) d0 =
           (if i < n - 1 then Inr (b, cl ! (n - 2 - i), h * 2, w * 2)
            else Inr (b, cl ! (n - 1 - i), h, w))"
  using assms
  by (simp add: up_layers_def fold_snoc_replicate out_shapes_append
      out_shapes_replicate_mixing conv_transpose_doubles)

lemma up_shape:
  assumes acc: "out_shapes tr acc d0 = Inr (b, cl ! (n - 1), h, w)" and pos: "0 < h" "0 < w"
  shows "k \<le> n \<Longrightarrow>
    out_shapes tr (fold (up_layers cl n bb) [0..<k] acc) d0
      = Inr (b, cl ! (n - 1 - min k (n - 1)), h * 2 ^ min k (n - 1), w * 2 ^ min k (n - 1))"
proof (induction k)
  case 0
  show ?case using acc by simp
next
  case (Suc k)
  then have k: "k < n" "min k (n - 1) = k" by simp_all
  have IH: "out_shapes tr (fold (up_layers cl n bb) [0..<k] acc) d0
      = Inr (b, cl ! (n - 1 - k), h * 2 ^ k, w * 2 ^ k)"
    using Suc.IH k by simp
  have p: "0 < h * 2 ^ k" "0 < w * 2 ^ k" using pos by simp_all
  show ?case
  proof (cases "k < n - 1")
    case True
    then have m: "min (Suc k) (n - 1) = Suc k" "n - 1 - Suc k = n - 2 - k" by simp_all
    show ?thesis
      unfolding fold_upt_Suc m using up_layers_shape[OF IH p, of bb] True by simp
  next
    case False
    with k have m: "min (Suc k) (n - 1) = k" by simp
    show ?thesis
      unfolding fold_upt_Suc m using up_layers_shape[OF IH p, of bb] False by simp
  qed
qed


lemma length_c_levels_of: "length (c_levels_of hidden n) = n"
  by (simp add: c_levels_of_def)

lemma c_levels_of_nth: "i < n \<Longrightarrow> c_levels_of hidden n ! i = hidden div 2 ^ (n - 1 - i)"
  by (simp add: c_levels_of_def rev_nth)

lemma c_levels_of_last: "0 < n \<Longrightarrow> last (c_levels_of hidden n) = c_levels_of hidden n ! (n - 1)"
  by (simp add: last_conv_nth length_c_levels_of flip: length_0_conv)

lemma c_levels_of_Nil: "c_levels_of hidden n = [] \<longleftrightarrow> n = 0"
  by (simp add: c_levels_of_def)

lemma c_levels_of_pos: "2 ^ (n - 1) \<le> hidden \<Longrightarrow> i < n \<Longrightarrow> 0 < c_levels_of hidden n ! i"
proof -
  assume h: "2 ^ (n - 1) \<le> hidden" and i: "i < n"
  have "(2::nat) ^ (n - 1 - i) \<le> 2 ^ (n - 1)" by (rule power_increasing) simp_all
  with h have "2 ^ (n - 1 - i) \<le> hidden" by (rule order_trans[rotated])
  then show ?thesis using i by (simp add: c_levels_of_nth div_greater_zero_iff)
qed

lemma c_levels_of_zero: "0 < n \<Longrightarrow> hidden < 2 ^ (n - 1) \<Longrightarrow> c_levels_of hidden n ! 0 = 0"
  by (simp add: c_levels_of_nth)

lemma for_loop_down:
  "(\<forall>i\<in>set js. 0 < cl ! i) \<Longrightarrow>
   for_loop (down_step cl) js acc = Inr (fold (down_layers cl) js acc)"
  by (induction js arbitrary: acc)
     (simp_all add: down_step_def down_layers_def mixing_residual_block_init_def Let_def)

lemma for_loop_down_zero:
  "0 < n \<Longrightarrow> cl ! 0 = 0 \<Longrightarrow> for_loop (down_step cl) [0..<n] acc = Inl ValueError"
  by (simp add: upt_conv_Cons down_step_def mixing_residual_block_init_def)

lemma for_loop_blocks:
  "0 < c \<Longrightarrow>
   for_loop (\<lambda>j a. case mixing_residual_block_init c e of
                      Inl err \<Rightarrow> Inl err | Inr block \<Rightarrow> Inr (a @ [block])) js acc
     = Inr (fold (\<lambda>j a. a @ [MixingResidualBlock c e]) js acc)"
  by (induction js arbitrary: acc) (simp_all add: mixing_residual_block_init_def)

lemma up_step_layers:
  "0 < cl ! (n - 1 - i) \<Longrightarrow> up_step cl n bb i acc = Inr (up_layers cl n bb i acc)"
  by (simp add: up_step_def up_layers_def for_loop_blocks Let_def)

lemma for_loop_up:
  "(\<forall>i\<in>set js. 0 < cl ! (n - 1 - i)) \<Longrightarrow>
   for_loop (up_step cl n bb) js acc = Inr (fold (up_layers cl n bb) js acc)"
  by (induction js arbitrary: acc) (simp_all add: up_step_layers)

lemma init_eq:
  "init cfg =
     (if levels cfg = 0 then Inl IndexError
      else if c_hidden cfg < 2 ^ (levels cfg - 1) then Inl ValueError
      else if codebook_size cfg = 0 then Inl ZeroDivisionError
      else Inr
        \<lparr>config = cfg,
         in_block = Sequential
           [PixelUnshuffle (up_down_scale_factor cfg),
            Conv2d (in_channels cfg * (up_down_scale_factor cfg) ^ 2)
              (c_levels_of (c_hidden cfg) (levels cfg) ! 0) 1 1 0 True],
         down_blocks = Sequential
           (fold (down_layers (c_levels_of (c_hidden cfg) (levels cfg))) [0..<levels cfg] []
            @ [Sequential [Conv2d (last (c_levels_of (c_hidden cfg) (levels cfg))) (c_latent cfg) 1 1 0 False,
                           BatchNorm2d (c_latent cfg)]]),
         vquantizer = \<lparr>n_e = codebook_size cfg, vq_embed_dim = c_latent cfg,
                       legacy = False, beta = 1 / 4\<rparr>,
         up_blocks = Sequential
           (fold (up_layers (c_levels_of (c_hidden cfg) (levels cfg)) (levels cfg) (bottleneck_blocks cfg))
              [0..<levels cfg]
              [Sequential [Conv2d (c_latent cfg) (last (c_levels_of (c_hidden cfg) (levels cfg))) 1 1 0 True]]),
         out_block = Sequential
           [Conv2d (c_levels_of (c_hidden cfg) (levels cfg) ! 0)
              (out_channels cfg * (up_down_scale_factor cfg) ^ 2) 1 1 0 True,
            PixelShuffle (up_down_scale_factor cfg)]\<rparr>)"
proof (cases "levels cfg = 0")
  case True
  then show ?thesis by (simp add: init_def Let_def c_levels_of_Nil)
next
  case n: False
  let ?cl = "c_levels_of (c_hidden cfg) (levels cfg)"
  show ?thesis
  proof (cases "c_hidden cfg < 2 ^ (levels cfg - 1)")
    case True
    then have "?cl ! 0 = 0" using n by (simp add: c_levels_of_zero)
    then have "for_loop (down_step ?cl) [0..<levels cfg] [] = Inl ValueError"
      using n by (simp add: for_loop_down_zero)
    then show ?thesis using n True by (simp add: init_def Let_def c_levels_of_Nil)
  next
    case False
    then have h: "2 ^ (levels cfg - 1) \<le> c_hidden cfg" by simp
    have d: "for_loop (down_step ?cl) [0..<levels cfg] []
        = Inr (fold (down_layers ?cl) [0..<levels cfg] [])"
      by (rule for_loop_down) (simp add: c_levels_of_pos[OF h])
    have u: "for_loop (up_step ?cl (levels cfg) (bottleneck_blocks cfg)) [0..<levels cfg] acc
        = Inr (fold (up_layers ?cl (levels cfg) (bottleneck_blocks cfg)) [0..<levels cfg] acc)"
      for acc
      by (rule for_loop_up) (simp add: c_levels_of_pos[OF h])
    show ?thesis using n False
      by (simp add: init_def Let_def c_levels_of_Nil d u vector_quantizer_init_def)
  qed
qed

lemma init_Inr:
  assumes "init cfg = Inr m"
  shows "0 < levels cfg" and "config m = cfg"
    and "in_block m = Sequential
           [PixelUnshuffle (up_down_scale_factor cfg),
            Conv2d (in_channels cfg * (up_down_scale_factor cfg) ^ 2)
              (c_levels_of (c_hidden cfg) (levels cfg) ! 0) 1 1 0 True]"
    and "down_blocks m = Sequential
           (fold (down_layers (c_levels_of (c_hidden cfg) (levels cfg))) [0..<levels cfg] []
            @ [Sequential [Conv2d (last (c_levels_of (c_hidden cfg) (levels cfg))) (c_latent cfg) 1 1 0 False,
                           BatchNorm2d (c_latent cfg)]])"
    and "up_blocks m = Sequential
           (fold (up_layers (c_levels_of (c_hidden cfg) (levels cfg)) (levels cfg) (bottleneck_blocks cfg))
              [0..<levels cfg]
              [Sequential [Conv2d (c_latent cfg) (last (c_levels_of (c_hidden cfg) (levels cfg))) 1 1 0 True]])"
    and "out_block m = Sequential
           [Conv2d (c_levels_of (c_hidden cfg) (levels cfg) ! 0)
              (out_channels cfg * (up_down_scale_factor cfg) ^ 2) 1 1 0 True,
            PixelShuffle (up_down_scale_factor cfg)]"
    and "2 ^ (levels cfg - 1) \<le> c_hidden cfg" and "0 < codebook_size cfg"
    and "vquantizer m = \<lparr>n_e = codebook_size cfg, vq_embed_dim = c_latent cfg,
                          legacy = False, beta = 1 / 4\<rparr>"
  using assms unfolding init_eq by (auto split: if_splits)

lemma init_ok:
  "0 < levels cfg \<and> 2 ^ (levels cfg - 1) \<le> c_hidden cfg \<and> 0 < codebook_size cfg
     \<Longrightarrow> \<exists>m. init cfg = Inr m"
  unfolding init_eq by simp

lemma conv1_shape:
  "0 < h \<Longrightarrow> 0 < w \<Longrightarrow> conv2d_shape c c' (Suc 0) (Suc 0) 0 (b, c, h, w) = Inr (b, c', h, w)"
  by (simp add: conv2d_shape_def)

lemma in_block_shape:
  assumes "init cfg = Inr m" "0 < up_down_scale_factor cfg"
    "up_down_scale_factor cfg dvd H" "up_down_scale_factor cfg dvd W" "0 < H" "0 < W"
    "0 < b" "0 < in_channels cfg"
  shows "out_shape tr (in_block m) (b, in_channels cfg, H, W) =
           Inr (b, c_levels_of (c_hidden cfg) (levels cfg) ! 0,
                H div up_down_scale_factor cfg, W div up_down_scale_factor cfg)"
proof -
  let ?r = "up_down_scale_factor cfg"
  have pos: "0 < H div ?r" "0 < W div ?r"
    using assms(2-6) by (auto simp: div_greater_zero_iff dvd_imp_le)
  show ?thesis
    using assms(2-8) pos
    by (simp add: init_Inr(3)[OF assms(1)] pixel_unshuffle_shape_def power2_eq_square
        mult.assoc conv1_shape dvd_eq_mod_eq_0)
qed

lemma down_blocks_shape:
  assumes "init cfg = Inr m" "2 ^ (levels cfg - 1) \<le> h" "2 ^ (levels cfg - 1) \<le> w"
    "\<not> (tr \<and> b * (h div 2 ^ (levels cfg - 1)) * (w div 2 ^ (levels cfg - 1)) = 1)"
  shows "out_shape tr (down_blocks m) (b, c_levels_of (c_hidden cfg) (levels cfg) ! 0, h, w) =
           Inr (b, c_latent cfg, h div 2 ^ (levels cfg - 1), w div 2 ^ (levels cfg - 1))"
proof -
  let ?n = "levels cfg" and ?cl = "c_levels_of (c_hidden cfg) (levels cfg)"
  have n: "0 < ?n" by (rule init_Inr(1)[OF assms(1)])
  then have S: "Suc (?n - 1) = ?n" by simp
  have pos: "0 < h div 2 ^ (?n - 1)" "0 < w div 2 ^ (?n - 1)"
    using assms(2,3) by (simp_all add: div_greater_zero_iff)
  have D: "out_shapes tr (fold (down_layers ?cl) [0..<?n] []) (b, ?cl ! 0, h, w)
      = Inr (b, ?cl ! (?n - 1), h div 2 ^ (?n - 1), w div 2 ^ (?n - 1))"
    using down_shape[OF assms(2,3), of tr ?cl b] by (simp only: S)
  show ?thesis
    using pos assms(4)
    by (simp add: init_Inr(4)[OF assms(1)] out_shapes_append D c_levels_of_last[OF n] conv1_shape)
qed

lemma up_blocks_shape:
  assumes "init cfg = Inr m" "0 < h" "0 < w"
  shows "out_shape tr (up_blocks m) (b, c_latent cfg, h, w) =
           Inr (b, c_levels_of (c_hidden cfg) (levels cfg) ! 0,
                h * 2 ^ (levels cfg - 1), w * 2 ^ (levels cfg - 1))"
proof -
  let ?n = "levels cfg" and ?cl = "c_levels_of (c_hidden cfg) (levels cfg)"
  have n: "0 < ?n" by (rule init_Inr(1)[OF assms(1)])
  have acc: "out_shapes tr [Sequential [Conv2d (c_latent cfg) (last ?cl) 1 1 0 True]]
      (b, c_latent cfg, h, w) = Inr (b, ?cl ! (?n - 1), h, w)"
    using assms(2,3) by (simp add: c_levels_of_last[OF n] conv1_shape)
  have m: "min ?n (?n - 1) = ?n - 1" by simp
  show ?thesis
    using up_shape[OF acc assms(2,3) order_refl, of "bottleneck_blocks cfg"]
    by (simp add: init_Inr(5)[OF assms(1)] m)
qed

lemma out_block_shape:
  assumes "init cfg = Inr m" "0 < up_down_scale_factor cfg" "0 < h" "0 < w"
  shows "out_shape tr (out_block m) (b, c_levels_of (c_hidden cfg) (levels cfg) ! 0, h, w) =
           Inr (b, out_channels cfg, h * up_down_scale_factor cfg, w * up_down_scale_factor cfg)"
  using assms(2-4)
  by (simp add: init_Inr(6)[OF assms(1)] conv1_shape pixel_shuffle_shape_def power2_eq_square)


lemma shape_image: "shape (image b c h w) = (b, c, h, w)"
  by (simp add: image_def)

lemma result_shape_Inr: "result_shape r = Inr d \<Longrightarrow> \<exists>t. r = Inr t \<and> shape t = d"
  by (cases r) auto

lemma run_layer_Inr:
  assumes "out_shape (training st) l (shape x) = Inr d"
  shows "\<exists>t st1. run_layer N pth l st x = (Inr t, st1) \<and> shape t = d \<and> training st1 = training st"
proof -
  from run_shape(1)[of N pth l st x] assms
  have "result_shape (fst (run_layer N pth l st x)) = Inr d"
    and tr: "training (snd (run_layer N pth l st x)) = training st" by simp_all
  then obtain t where "fst (run_layer N pth l st x) = Inr t" "shape t = d"
    using result_shape_Inr by blast
  with tr show ?thesis by (cases "run_layer N pth l st x") auto
qed

lemma shape_tdiv: "shape (tdiv N t s) = shape t"
  by (simp add: tdiv_def)

lemma shape_tmul: "shape (tmul N t s) = shape t"
  by (simp add: tmul_def)

lemma shape_decode_quant: "shape (decode_quant N m h q) = shape h"
  by (simp add: decode_quant_def vquantizer_forward_def shape_tmul split: prod.splits)

lemma encode_Inr:
  assumes "out_shape (training st) (in_block m) (shape x) = Inr d1"
    and "out_shape (training st) (down_blocks m) d1 = Inr d2"
  shows "\<exists>t st1. encode N m st x True = (Inr (VQEncoderOutput t), st1) \<and> shape t = d2
           \<and> training st1 = training st"
proof -
  obtain h s1 where 1: "run_layer N (''in_block'', []) (in_block m) st x = (Inr h, s1)"
      "shape h = d1" "training s1 = training st"
    using run_layer_Inr[OF assms(1), where N = N and pth = "(''in_block'', [])"] by blast
  have "out_shape (training s1) (down_blocks m) (shape h) = Inr d2"
    using assms(2) 1 by simp
  then obtain h1 s2 where 2: "run_layer N (''down_blocks'', []) (down_blocks m) s1 h = (Inr h1, s2)"
      "shape h1 = d2" "training s2 = training s1"
    using run_layer_Inr[where N = N and pth = "(''down_blocks'', [])"] by blast
  show ?thesis using 1 2 by (simp add: encode_def Let_def shape_tdiv)
qed

lemma decode_Inr:
  assumes "out_shape (training st) (up_blocks m) (shape h) = Inr d1"
    and "out_shape (training st) (out_block m) d1 = Inr d2"
  shows "\<exists>t st1. decode N m st h q True = (Inr (DecoderOutput t), st1) \<and> shape t = d2"
proof -
  let ?q = "decode_quant N m h q"
  have "out_shape (training st) (up_blocks m) (shape ?q) = Inr d1"
    using assms(1) by (simp add: shape_decode_quant)
  then obtain x s1 where 1: "run_layer N (''up_blocks'', []) (up_blocks m) st ?q = (Inr x, s1)"
      "shape x = d1" "training s1 = training st"
    using run_layer_Inr[where N = N and pth = "(''up_blocks'', [])"] by blast
  have "out_shape (training s1) (out_block m) (shape x) = Inr d2"
    using assms(2) 1 by simp
  then obtain y s2 where 2: "run_layer N (''out_block'', []) (out_block m) s1 x = (Inr y, s2)"
      "shape y = d2"
    using run_layer_Inr[where N = N and pth = "(''out_block'', [])"] by blast
  show ?thesis using 1 2 by (simp add: decode_def decode_blocks_def)
qed

lemma encode_shape_floor:
  assumes "init cfg = Inr m" "0 < up_down_scale_factor cfg"
    and "shape x = (b, in_channels cfg, H, W)"
    and "up_down_scale_factor cfg dvd H" "up_down_scale_factor cfg dvd W"
    and "2 ^ (levels cfg - 1) \<le> H div up_down_scale_factor cfg"
    and "2 ^ (levels cfg - 1) \<le> W div up_down_scale_factor cfg"
    and "\<not> (training st \<and>
            b * (H div up_down_scale_factor cfg div 2 ^ (levels cfg - 1))
              * (W div up_down_scale_factor cfg div 2 ^ (levels cfg - 1)) = 1)"
    and "0 < b" "0 < in_channels cfg"
  shows "\<exists>t st1. encode N m st x True = (Inr (VQEncoderOutput t), st1)
           \<and> shape t = (b, c_latent cfg, H div up_down_scale_factor cfg div 2 ^ (levels cfg - 1),
                         W div up_down_scale_factor cfg div 2 ^ (levels cfg - 1))
           \<and> training st1 = training st"
proof -
  have pos: "0 < H" "0 < W"
    using assms(6,7) by (auto intro!: Nat.gr0I)
  show ?thesis
    by (rule encode_Inr[where ?d1.0 = "(b, c_levels_of (c_hidden cfg) (levels cfg) ! 0,
          H div up_down_scale_factor cfg, W div up_down_scale_factor cfg)"])
       (simp_all only: assms(3) in_block_shape[OF assms(1,2,4,5) pos assms(9,10)]
          down_blocks_shape[OF assms(1,6,7,8)])
qed

lemma decode_shape:
  assumes "init cfg = Inr m" "0 < up_down_scale_factor cfg"
    and "shape h = (b, c_latent cfg, h', w')" "0 < h'" "0 < w'"
  shows "\<exists>t st1. decode N m st h q True = (Inr (DecoderOutput t), st1)
           \<and> shape t = (b, out_channels cfg, h' * 2 ^ (levels cfg - 1) * up_down_scale_factor cfg,
                         w' * 2 ^ (levels cfg - 1) * up_down_scale_factor cfg)"
proof -
  have pos: "0 < h' * 2 ^ (levels cfg - 1)" "0 < w' * 2 ^ (levels cfg - 1)"
    using assms(4,5) by simp_all
  show ?thesis
    by (rule decode_Inr[where ?d1.0 = "(b, c_levels_of (c_hidden cfg) (levels cfg) ! 0,
          h' * 2 ^ (levels cfg - 1), w' * 2 ^ (levels cfg - 1))"])
       (simp_all only: assms(3) up_blocks_shape[OF assms(1,4,5)]
          out_block_shape[OF assms(1,2) pos])
qed

lemma scale_arith:
  fixes H r p :: nat
  assumes "0 < r" "0 < p" "r * p dvd H" "0 < H"
  shows "r dvd H" "p \<le> H div r" "H div r div p = H div (r * p)"
    "H div (r * p) * p * r = H" "0 < H div (r * p)"
proof -
  from assms(3) obtain k where k: "H = r * p * k" by (rule dvdE)
  with assms(4) have kpos: "0 < k" by (auto intro!: Nat.gr0I)
  show "r dvd H" using k by simp
  show "p \<le> H div r" using k assms(1) kpos by simp
  show "H div r div p = H div (r * p)" by (simp add: div_mult2_eq)
  show "H div (r * p) * p * r = H" using k assms(1,2) by simp
  show "0 < H div (r * p)" using k assms(1,2) kpos by simp
qed

lemma valid_configD:
  "valid_config cfg \<Longrightarrow> 0 < up_down_scale_factor cfg"
  "valid_config cfg \<Longrightarrow> 0 < levels cfg"
  "valid_config cfg \<Longrightarrow> 0 < in_channels cfg"
  by (simp_all add: valid_config_def)

lemma round_trip_shape:
  assumes "init cfg = Inr m" "0 < up_down_scale_factor cfg"
    and "shape x = (b, in_channels cfg, H, W)"
    and "up_down_scale_factor cfg dvd H" "up_down_scale_factor cfg dvd W"
    and "2 ^ (levels cfg - 1) \<le> H div up_down_scale_factor cfg"
    and "2 ^ (levels cfg - 1) \<le> W div up_down_scale_factor cfg"
    and "\<not> (training st \<and>
            b * (H div up_down_scale_factor cfg div 2 ^ (levels cfg - 1))
              * (W div up_down_scale_factor cfg div 2 ^ (levels cfg - 1)) = 1)"
    and "0 < b" "0 < in_channels cfg"
  shows "\<exists>y st2. decode_encode N m st x True = (Inr (DecoderOutput y), st2)
           \<and> shape y = (b, out_channels cfg,
                H div up_down_scale_factor cfg div 2 ^ (levels cfg - 1) * 2 ^ (levels cfg - 1)
                  * up_down_scale_factor cfg,
                W div up_down_scale_factor cfg div 2 ^ (levels cfg - 1) * 2 ^ (levels cfg - 1)
                  * up_down_scale_factor cfg)"
proof -
  let ?r = "up_down_scale_factor cfg" and ?p = "2 ^ (levels cfg - 1) :: nat"
  obtain h st1 where e: "encode N m st x True = (Inr (VQEncoderOutput h), st1)"
      "shape h = (b, c_latent cfg, H div ?r div ?p, W div ?r div ?p)"
    using encode_shape_floor[OF assms, of N] by blast
  have pos: "0 < H div ?r div ?p" "0 < W div ?r div ?p"
    using assms(6,7) by (simp_all add: div_greater_zero_iff)
  obtain y st2 where d: "decode N m st1 h True True = (Inr (DecoderOutput y), st2)"
      "shape y = (b, out_channels cfg, H div ?r div ?p * ?p * ?r, W div ?r div ?p * ?p * ?r)"
    using decode_shape[OF assms(1,2) e(2) pos, of N st1 True] by blast
  show ?thesis using e(1) d by (simp add: decode_encode_def)
qed

lemma init_projr:
  "0 < levels cfg \<and> 2 ^ (levels cfg - 1) \<le> c_hidden cfg \<and> 0 < codebook_size cfg
     \<Longrightarrow> init cfg = Inr (projr (init cfg))"
  using init_ok[of cfg] by auto

lemma default_config_simps:
  "in_channels default_config = 3" "out_channels default_config = 3"
  "up_down_scale_factor default_config = 2" "levels default_config = 2"
  "bottleneck_blocks default_config = 12" "c_hidden default_config = 384"
  "c_latent default_config = 4" "codebook_size default_config = 8192"
  by (simp_all add: default_config_def)

lemma scale3_config_simps:
  "in_channels scale3_config = 3" "out_channels scale3_config = 3"
  "up_down_scale_factor scale3_config = 3" "levels scale3_config = 2"
  "c_hidden scale3_config = 384" "c_latent scale3_config = 4"
  "codebook_size scale3_config = 8192"
  by (simp_all add: scale3_config_def default_config_def)

lemma mono_out_config_simps:
  "in_channels mono_out_config = 3" "out_channels mono_out_config = 1"
  "up_down_scale_factor mono_out_config = 2" "levels mono_out_config = 2"
  "c_hidden mono_out_config = 384" "c_latent mono_out_config = 4"
  "codebook_size mono_out_config = 8192"
  by (simp_all add: mono_out_config_def default_config_def)

lemma new_state_training: "training (new_state cfg)" "\<not> training (eval_mode st)"
  by (simp_all add: new_state_def eval_mode_def)

section \<open>The channel-width schedule\<close>

lemma c_levels_of_top: "0 < n \<Longrightarrow> c_levels_of hidden n ! (n - 1) = hidden"
  by (simp add: c_levels_of_nth)

lemma c_levels_of_mono:
  "i \<le> j \<Longrightarrow> j < n \<Longrightarrow> c_levels_of hidden n ! i \<le> c_levels_of hidden n ! j"
  by (simp add: c_levels_of_nth div_le_mono2 power_increasing)

lemma doubling_iff_dvd:
  fixes hidden :: nat
  shows "(\<forall>i. Suc i < n \<longrightarrow> c_levels_of hidden n ! Suc i = 2 * c_levels_of hidden n ! i)
           \<longleftrightarrow> 2 ^ (n - 1) dvd hidden"
proof
  assume dbl: "\<forall>i. Suc i < n \<longrightarrow> c_levels_of hidden n ! Suc i = 2 * c_levels_of hidden n ! i"
  have "j < n \<Longrightarrow> 2 ^ j dvd hidden" for j
  proof (induction j)
    case 0
    show ?case by simp
  next
    case (Suc j)
    then have j: "2 ^ j dvd hidden" and lt: "Suc j < n" by simp_all
    let ?i = "n - 2 - j"
    have i: "Suc ?i < n" "n - 1 - Suc ?i = j" "n - 1 - ?i = Suc j" using lt by simp_all
    have "c_levels_of hidden n ! Suc ?i = 2 * c_levels_of hidden n ! ?i"
      using dbl i(1) by blast
    then have "hidden div 2 ^ j = 2 * (hidden div 2 ^ Suc j)"
      using i by (simp add: c_levels_of_nth)
    moreover have "hidden = 2 ^ j * (hidden div 2 ^ j)" using j by simp
    ultimately have "hidden = 2 ^ Suc j * (hidden div 2 ^ Suc j)" by (metis mult.assoc power_Suc2)
    then show ?case by (metis dvd_triv_left)
  qed
  then show "2 ^ (n - 1) dvd hidden"
    by (cases n) simp_all
next
  assume d: "2 ^ (n - 1) dvd hidden"
  then obtain k where k: "hidden = 2 ^ (n - 1) * k" by (rule dvdE)
  show "\<forall>i. Suc i < n \<longrightarrow> c_levels_of hidden n ! Suc i = 2 * c_levels_of hidden n ! i"
  proof (intro allI impI)
    fix i assume i: "Suc i < n"
    have e: "n - 1 = (n - 2 - i) + Suc i" "n - 1 - i = Suc (n - 2 - i)" "n - 1 - Suc i = n - 2 - i"
      using i by simp_all
    have 1: "hidden div 2 ^ (n - 2 - i) = 2 ^ Suc i * k"
      unfolding k e(1) power_add by simp
    have 2: "hidden div 2 ^ Suc (n - 2 - i) = 2 ^ i * k"
    proof -
      have "hidden = 2 ^ Suc (n - 2 - i) * (2 ^ i * k)"
        unfolding k e(1) power_add by simp
      then show ?thesis by (metis nonzero_mult_div_cancel_left power_not_zero zero_neq_numeral)
    qed
    have a: "c_levels_of hidden n ! Suc i = hidden div 2 ^ (n - 2 - i)"
      by (metis c_levels_of_nth e(3) i)
    have b: "c_levels_of hidden n ! i = hidden div 2 ^ Suc (n - 2 - i)"
      by (metis c_levels_of_nth e(2) i Suc_lessD)
    show "c_levels_of hidden n ! Suc i = 2 * c_levels_of hidden n ! i"
      unfolding a b 1 2 by simp
  qed
qed

lemma odd_hidden_config_simps:
  "in_channels odd_hidden_config = 3" "out_channels odd_hidden_config = 3"
  "up_down_scale_factor odd_hidden_config = 2"
  "levels odd_hidden_config = 2" "c_hidden odd_hidden_config = 5"
  "c_latent odd_hidden_config = 4" "codebook_size odd_hidden_config = 8192"
  by (simp_all add: odd_hidden_config_def default_config_def)

lemma init_levels_0: "levels cfg = 0 \<Longrightarrow> init cfg = Inl IndexError"
  by (simp add: init_eq)

section \<open>State: what a call reads and writes\<close>

text \<open>
  The tensor of a run is the same from two states that answer alike, a run leaves a
  state that answers like the one it started in, and in evaluation mode it leaves the
  state itself.
\<close>

lemma same_mode_refl: "same_mode st st"
  by (simp add: same_mode_def)

lemma same_mode_trans: "same_mode a b \<Longrightarrow> same_mode b c \<Longrightarrow> same_mode a c"
  by (auto simp: same_mode_def)

lemma stateless_same_mode:
  "fst (stateless N pth st x r) = fst (stateless N pth st' x r)"
  by (cases r) (simp_all add: stateless_def)

lemma batch_norm2d_same_mode:
  assumes "same_mode st st'"
  shows "fst (batch_norm2d N pth n st x) = fst (batch_norm2d N pth n st' x)"
    and "same_mode (snd (batch_norm2d N pth n st x)) (snd (batch_norm2d N pth n st' x))"
proof -
  obtain b c h w where d: "shape x = (b, c, h, w)" by (cases "shape x")
  show "fst (batch_norm2d N pth n st x) = fst (batch_norm2d N pth n st' x)"
  proof (cases "training st")
    case True
    with assms have "training st'" by (simp add: same_mode_def)
    with True d show ?thesis by (simp add: batch_norm2d_def Let_def)
  next
    case False
    with assms have "\<not> training st'" "buffers st' = buffers st" by (simp_all add: same_mode_def)
    with False d show ?thesis by (simp add: batch_norm2d_def)
  qed
  show "same_mode (snd (batch_norm2d N pth n st x)) (snd (batch_norm2d N pth n st' x))"
  proof (cases "training st")
    case True
    with assms have "training st'" by (simp add: same_mode_def)
    with True d show ?thesis by (simp add: batch_norm2d_def Let_def same_mode_def)
  next
    case False
    with assms have "\<not> training st'" "buffers st' = buffers st" by (simp_all add: same_mode_def)
    with False d show ?thesis by (simp add: batch_norm2d_def same_mode_def)
  qed
qed

lemma batch_norm2d_stays: "same_mode st (snd (batch_norm2d N pth n st x))"
  by (cases "shape x") (simp add: batch_norm2d_def Let_def same_mode_def)

lemma batch_norm2d_eval: "\<not> training st \<Longrightarrow> snd (batch_norm2d N pth n st x) = st"
  by (cases "shape x") (simp add: batch_norm2d_def)

lemma run_same_mode:
  "\<forall>st'. same_mode st st' \<longrightarrow>
     fst (run_layer N pth l st x) = fst (run_layer N pth l st' x)
     \<and> same_mode (snd (run_layer N pth l st x)) (snd (run_layer N pth l st' x))"
  "\<forall>st'. same_mode st st' \<longrightarrow>
     fst (run_layers N pth i ls st x) = fst (run_layers N pth i ls st' x)
     \<and> same_mode (snd (run_layers N pth i ls st x)) (snd (run_layers N pth i ls st' x))"
proof (induction N pth l st x and N pth i ls st x rule: run_layer_run_layers.induct)
  case (9 N pth i l ls st x)
  show ?case
  proof (intro allI impI)
    fix st' assume sm: "same_mode st st'"
    obtain r s1 where a: "run_layer N (fst pth, snd pth @ [i]) l st x = (r, s1)"
      by (cases "run_layer N (fst pth, snd pth @ [i]) l st x")
    obtain r' s1' where b: "run_layer N (fst pth, snd pth @ [i]) l st' x = (r', s1')"
      by (cases "run_layer N (fst pth, snd pth @ [i]) l st' x")
    from 9(1) sm a b have eq: "r' = r" and sm1: "same_mode s1 s1'" by auto
    show "fst (run_layers N pth i (l # ls) st x) = fst (run_layers N pth i (l # ls) st' x)
       \<and> same_mode (snd (run_layers N pth i (l # ls) st x)) (snd (run_layers N pth i (l # ls) st' x))"
    proof (cases r)
      case (Inl e)
      with a b eq sm1 show ?thesis by simp
    next
      case (Inr y)
      from 9(2)[OF a[symmetric] Inr] sm1 a b eq Inr show ?thesis by simp
    qed
  qed
qed (simp_all add: stateless_same_mode stateless_snd batch_norm2d_same_mode)

lemma run_stays:
  "same_mode st (snd (run_layer N pth l st x))"
  "same_mode st (snd (run_layers N pth i ls st x))"
proof (induction N pth l st x and N pth i ls st x rule: run_layer_run_layers.induct)
  case (9 N pth i l ls st x)
  obtain r s1 where a: "run_layer N (fst pth, snd pth @ [i]) l st x = (r, s1)"
    by (cases "run_layer N (fst pth, snd pth @ [i]) l st x")
  show ?case
  proof (cases r)
    case (Inl e)
    with a 9(1) show ?thesis by simp
  next
    case (Inr y)
    from 9(2)[OF a[symmetric] Inr] 9(1) a Inr show ?thesis
      by (auto intro: same_mode_trans)
  qed
qed (simp_all add: stateless_snd batch_norm2d_stays same_mode_refl)

lemma run_eval:
  "\<not> training st \<longrightarrow> snd (run_layer N pth l st x) = st"
  "\<not> training st \<longrightarrow> snd (run_layers N pth i ls st x) = st"
proof (induction N pth l st x and N pth i ls st x rule: run_layer_run_layers.induct)
  case (9 N pth i l ls st x)
  obtain r s1 where a: "run_layer N (fst pth, snd pth @ [i]) l st x = (r, s1)"
    by (cases "run_layer N (fst pth, snd pth @ [i]) l st x")
  show ?case
  proof (cases r)
    case (Inl e)
    with a 9(1) show ?thesis by simp
  next
    case (Inr y)
    from 9(2)[OF a[symmetric] Inr] 9(1) a Inr show ?thesis by auto
  qed
qed (simp_all add: stateless_snd batch_norm2d_eval)

lemma run_layer_same_modeD:
  assumes "same_mode st st'" "run_layer N pth l st x = (r, s1)" "run_layer N pth l st' x = (r', s1')"
  shows "r' = r" "same_mode s1 s1'"
  using run_same_mode(1)[of st N pth l x] assms by auto

lemma run_layer_staysD: "run_layer N pth l st x = (r, s1) \<Longrightarrow> same_mode st s1"
  using run_stays(1)[of st N pth l x] by simp

lemma run_layer_evalD: "\<not> training st \<Longrightarrow> run_layer N pth l st x = (r, s1) \<Longrightarrow> s1 = st"
  using run_eval(1)[of st N pth l x] by simp

lemma encode_same_mode:
  assumes sm: "same_mode st st'"
  shows "fst (encode N m st x rd) = fst (encode N m st' x rd)
    \<and> same_mode (snd (encode N m st x rd)) (snd (encode N m st' x rd))"
proof -
  let ?A = "\<lambda>s. run_layer N (''in_block'', []) (in_block m) s x"
  obtain r s1 where a: "?A st = (r, s1)" by (cases "?A st")
  obtain r' s1' where a': "?A st' = (r', s1')" by (cases "?A st'")
  note 1 = run_layer_same_modeD[OF sm a a']
  show ?thesis
  proof (cases r)
    case (Inl e)
    with a a' 1 show ?thesis by (simp add: encode_def)
  next
    case (Inr h)
    let ?B = "\<lambda>s. run_layer N (''down_blocks'', []) (down_blocks m) s h"
    obtain q s2 where b: "?B s1 = (q, s2)" by (cases "?B s1")
    obtain q' s2' where b': "?B s1' = (q', s2')" by (cases "?B s1'")
    note 2 = run_layer_same_modeD[OF 1(2) b b']
    show ?thesis using a a' 1(1) Inr b b' 2 by (cases q) (simp_all add: encode_def Let_def)
  qed
qed

lemma encode_stays: "same_mode st (snd (encode N m st x rd))"
proof -
  let ?A = "\<lambda>s. run_layer N (''in_block'', []) (in_block m) s x"
  obtain r s1 where a: "?A st = (r, s1)" by (cases "?A st")
  note 1 = run_layer_staysD[OF a]
  show ?thesis
  proof (cases r)
    case (Inl e)
    with a 1 show ?thesis by (simp add: encode_def)
  next
    case (Inr h)
    let ?B = "\<lambda>s. run_layer N (''down_blocks'', []) (down_blocks m) s h"
    obtain q s2 where b: "?B s1 = (q, s2)" by (cases "?B s1")
    have "same_mode st s2" using 1 run_layer_staysD[OF b] by (rule same_mode_trans)
    then show ?thesis using a Inr b by (cases q) (simp_all add: encode_def Let_def)
  qed
qed

lemma encode_eval: "\<not> training st \<Longrightarrow> snd (encode N m st x rd) = st"
proof -
  assume ev: "\<not> training st"
  let ?A = "\<lambda>s. run_layer N (''in_block'', []) (in_block m) s x"
  obtain r s1 where a: "?A st = (r, s1)" by (cases "?A st")
  note 1 = run_layer_evalD[OF ev a]
  show ?thesis
  proof (cases r)
    case (Inl e)
    with a 1 show ?thesis by (simp add: encode_def)
  next
    case (Inr h)
    let ?B = "\<lambda>s. run_layer N (''down_blocks'', []) (down_blocks m) s h"
    obtain q s2 where b: "?B st = (q, s2)" by (cases "?B st")
    have "s2 = st" using ev b by (rule run_layer_evalD)
    then show ?thesis using a 1 Inr b by (cases q) (simp_all add: encode_def Let_def)
  qed
qed

lemma decode_same_mode:
  assumes sm: "same_mode st st'"
  shows "fst (decode N m st h q rd) = fst (decode N m st' h q rd)
    \<and> same_mode (snd (decode N m st h q rd)) (snd (decode N m st' h q rd))"
proof -
  let ?A = "\<lambda>s. run_layer N (''up_blocks'', []) (up_blocks m) s (decode_quant N m h q)"
  obtain r s1 where a: "?A st = (r, s1)" by (cases "?A st")
  obtain r' s1' where a': "?A st' = (r', s1')" by (cases "?A st'")
  note 1 = run_layer_same_modeD[OF sm a a']
  show ?thesis
  proof (cases r)
    case (Inl e)
    with a a' 1 show ?thesis by (simp add: decode_def decode_blocks_def)
  next
    case (Inr y)
    let ?B = "\<lambda>s. run_layer N (''out_block'', []) (out_block m) s y"
    obtain u s2 where b: "?B s1 = (u, s2)" by (cases "?B s1")
    obtain u' s2' where b': "?B s1' = (u', s2')" by (cases "?B s1'")
    note 2 = run_layer_same_modeD[OF 1(2) b b']
    show ?thesis using a a' 1(1) Inr b b' 2
      by (cases u) (simp_all add: decode_def decode_blocks_def)
  qed
qed

lemma decode_stays: "same_mode st (snd (decode N m st h q rd))"
proof -
  let ?A = "\<lambda>s. run_layer N (''up_blocks'', []) (up_blocks m) s (decode_quant N m h q)"
  obtain r s1 where a: "?A st = (r, s1)" by (cases "?A st")
  note 1 = run_layer_staysD[OF a]
  show ?thesis
  proof (cases r)
    case (Inl e)
    with a 1 show ?thesis by (simp add: decode_def decode_blocks_def)
  next
    case (Inr y)
    let ?B = "\<lambda>s. run_layer N (''out_block'', []) (out_block m) s y"
    obtain u s2 where b: "?B s1 = (u, s2)" by (cases "?B s1")
    have "same_mode st s2" using 1 run_layer_staysD[OF b] by (rule same_mode_trans)
    then show ?thesis using a Inr b by (cases u) (simp_all add: decode_def decode_blocks_def)
  qed
qed

lemma decode_eval: "\<not> training st \<Longrightarrow> snd (decode N m st h q rd) = st"
proof -
  assume ev: "\<not> training st"
  let ?A = "\<lambda>s. run_layer N (''up_blocks'', []) (up_blocks m) s (decode_quant N m h q)"
  obtain r s1 where a: "?A st = (r, s1)" by (cases "?A st")
  note 1 = run_layer_evalD[OF ev a]
  show ?thesis
  proof (cases r)
    case (Inl e)
    with a 1 show ?thesis by (simp add: decode_def decode_blocks_def)
  next
    case (Inr y)
    let ?B = "\<lambda>s. run_layer N (''out_block'', []) (out_block m) s y"
    obtain u s2 where b: "?B st = (u, s2)" by (cases "?B st")
    have "s2 = st" using ev b by (rule run_layer_evalD)
    then show ?thesis using a 1 Inr b by (cases u) (simp_all add: decode_def decode_blocks_def)
  qed
qed

lemma encode_wrap:
  "encode N m st x rd = wrap_result (if rd then VQEncoderOutput else Tuple1)
     (case encode N m st x True of (Inl e, s) \<Rightarrow> (Inl e, s) | (Inr out, s) \<Rightarrow> (Inr (output_tensor out), s))"
  by (simp add: encode_def Let_def split: prod.splits sum.splits)

lemma decode_wrap:
  "decode N m st h q rd = wrap_result (if rd then DecoderOutput else Tuple1)
     (case decode N m st h q True of (Inl e, s) \<Rightarrow> (Inl e, s) | (Inr out, s) \<Rightarrow> (Inr (output_tensor out), s))"
  by (simp add: decode_def decode_blocks_def split: prod.splits sum.splits)

lemma forward_decode_encode: "forward N m st x rd = decode_encode N m st x rd"
proof -
  have d: "(case decode N m s h True True of
        (Inl e, s2) \<Rightarrow> (Inl e, s2)
      | (Inr d, s2) \<Rightarrow> (case sample d of Inl e \<Rightarrow> (Inl e, s2)
          | Inr dec \<Rightarrow> if \<not> rd then (Inr (Tuple1 dec), s2) else (Inr (DecoderOutput dec), s2)))
      = decode N m s h True rd" for s h
    by (simp add: decode_def decode_blocks_def split: prod.splits sum.splits)
  show ?thesis
    unfolding forward_def decode_encode_def d ..
qed

lemma forward_wrap:
  "forward N m st x rd = wrap_result (if rd then DecoderOutput else Tuple1)
     (case forward N m st x True of (Inl e, s) \<Rightarrow> (Inl e, s) | (Inr out, s) \<Rightarrow> (Inr (output_tensor out), s))"
proof -
  obtain r s1 where e: "encode N m st x True = (r, s1)" by (cases "encode N m st x True")
  show ?thesis
  proof (cases r)
    case (Inl err)
    with e show ?thesis by (simp add: forward_decode_encode decode_encode_def)
  next
    case (Inr eo)
    show ?thesis
    proof (cases "latents eo")
      case (Inl err)
      with e Inr show ?thesis by (simp add: forward_decode_encode decode_encode_def)
    next
      case h: (Inr h)
      have "forward N m st x b = decode N m s1 h True b" for b
        using e Inr h by (simp add: forward_decode_encode decode_encode_def)
      then show ?thesis using decode_wrap[of N m s1 h True rd] by simp
    qed
  qed
qed

lemma bn_free_list_append: "bn_free_list (xs @ ys) = (bn_free_list xs \<and> bn_free_list ys)"
  by (induction xs) simp_all

lemma bn_free_list_replicate: "bn_free l \<Longrightarrow> bn_free_list (replicate k l)"
  by (induction k) simp_all

lemma bn_free_up_layers: "bn_free_list acc \<Longrightarrow> bn_free_list (up_layers cl n bb i acc)"
  by (simp add: up_layers_def Let_def fold_snoc_replicate bn_free_list_append bn_free_list_replicate)

lemma bn_free_fold_up_layers:
  "bn_free_list acc \<Longrightarrow> bn_free_list (fold (up_layers cl n bb) js acc)"
  by (induction js arbitrary: acc) (simp_all add: bn_free_up_layers)

lemma bn_free_init:
  assumes "init cfg = Inr m"
  shows "bn_free (up_blocks m)" "bn_free (out_block m)"
  by (simp_all add: init_Inr(5,6)[OF assms] bn_free_fold_up_layers)

lemma run_bn_free:
  "bn_free l \<longrightarrow> snd (run_layer N pth l st x) = st"
  "bn_free_list ls \<longrightarrow> snd (run_layers N pth i ls st x) = st"
proof (induction N pth l st x and N pth i ls st x rule: run_layer_run_layers.induct)
  case (9 N pth i l ls st x)
  obtain r s1 where a: "run_layer N (fst pth, snd pth @ [i]) l st x = (r, s1)"
    by (cases "run_layer N (fst pth, snd pth @ [i]) l st x")
  show ?case
  proof (cases r)
    case (Inl e)
    with a 9(1) show ?thesis by simp
  next
    case (Inr y)
    from 9(2)[OF a[symmetric] Inr] 9(1) a Inr show ?thesis by auto
  qed
qed (simp_all add: stateless_snd)

lemma decode_pure:
  assumes "init cfg = Inr m"
  shows "snd (decode N m st h q rd) = st"
proof -
  let ?A = "run_layer N (''up_blocks'', []) (up_blocks m) st (decode_quant N m h q)"
  obtain r s1 where a: "?A = (r, s1)" by (cases ?A)
  have 1: "s1 = st" using run_bn_free(1)[of "up_blocks m" N _ st] bn_free_init(1)[OF assms] a
    by (metis snd_conv)
  show ?thesis
  proof (cases r)
    case (Inl e)
    with a 1 show ?thesis by (simp add: decode_def decode_blocks_def)
  next
    case (Inr y)
    let ?B = "run_layer N (''out_block'', []) (out_block m) st y"
    obtain u s2 where b: "?B = (u, s2)" by (cases ?B)
    have "s2 = st" using run_bn_free(1)[of "out_block m" N _ st] bn_free_init(2)[OF assms] b
      by (metis snd_conv)
    then show ?thesis using a 1 Inr b by (cases u) (simp_all add: decode_def decode_blocks_def)
  qed
qed

lemma decode_encode_same_mode:
  assumes sm: "same_mode st st'"
  shows "fst (decode_encode N m st x rd) = fst (decode_encode N m st' x rd)"
    and "same_mode (snd (decode_encode N m st x rd)) (snd (decode_encode N m st' x rd))"
proof -
  obtain r s1 where e: "encode N m st x True = (r, s1)" by (cases "encode N m st x True")
  obtain r' s1' where e': "encode N m st' x True = (r', s1')" by (cases "encode N m st' x True")
  from encode_same_mode[OF sm, of N m x True] e e'
  have r: "r' = r" and sm1: "same_mode s1 s1'" by simp_all
  have "fst (decode_encode N m st x rd) = fst (decode_encode N m st' x rd)
    \<and> same_mode (snd (decode_encode N m st x rd)) (snd (decode_encode N m st' x rd))"
  proof (cases r)
    case (Inl err)
    with e e' r sm1 show ?thesis by (simp add: decode_encode_def)
  next
    case (Inr eo)
    show ?thesis
    proof (cases "latents eo")
      case (Inl err)
      with e e' r sm1 Inr show ?thesis by (simp add: decode_encode_def)
    next
      case h: (Inr h)
      with e e' r Inr decode_same_mode[OF sm1, of N m h True rd] show ?thesis
        by (simp add: decode_encode_def)
    qed
  qed
  then show "fst (decode_encode N m st x rd) = fst (decode_encode N m st' x rd)"
    and "same_mode (snd (decode_encode N m st x rd)) (snd (decode_encode N m st' x rd))"
    by simp_all
qed

lemma decode_encode_stays: "same_mode st (snd (decode_encode N m st x rd))"
proof -
  obtain r s1 where e: "encode N m st x True = (r, s1)" by (cases "encode N m st x True")
  have 1: "same_mode st s1" using encode_stays[of st N m x True] e by simp
  show ?thesis
  proof (cases r)
    case (Inl err)
    with e 1 show ?thesis by (simp add: decode_encode_def)
  next
    case (Inr eo)
    show ?thesis
    proof (cases "latents eo")
      case (Inl err)
      with e 1 Inr show ?thesis by (simp add: decode_encode_def)
    next
      case h: (Inr h)
      have "same_mode st (snd (decode N m s1 h True rd))"
        using 1 decode_stays by (rule same_mode_trans)
      with e Inr h show ?thesis by (simp add: decode_encode_def)
    qed
  qed
qed

lemma decode_encode_eval: "\<not> training st \<Longrightarrow> snd (decode_encode N m st x rd) = st"
proof -
  assume ev: "\<not> training st"
  obtain r s1 where e: "encode N m st x True = (r, s1)" by (cases "encode N m st x True")
  have 1: "s1 = st" using encode_eval[OF ev, of N m x True] e by simp
  show ?thesis
  proof (cases r)
    case (Inl err)
    with e 1 show ?thesis by (simp add: decode_encode_def)
  next
    case (Inr eo)
    show ?thesis
    proof (cases "latents eo")
      case (Inl err)
      with e 1 Inr show ?thesis by (simp add: decode_encode_def)
    next
      case h: (Inr h)
      with e 1 Inr decode_eval[OF ev, of N m h True rd] show ?thesis
        by (simp add: decode_encode_def)
    qed
  qed
qed

lemma default_model_encoder:
  "in_block (projr (init default_config)) =
     Sequential [PixelUnshuffle 2, Conv2d 12 192 1 1 0 True]"
  "down_blocks (projr (init default_config)) =
     Sequential [MixingResidualBlock 192 768, Conv2d 192 384 4 2 1 True,
                 MixingResidualBlock 384 1536,
                 Sequential [Conv2d 384 4 1 1 0 False, BatchNorm2d 4]]"
  by code_simp+

lemma stateless_vq_indep:
  "stateless (N\<lparr>vq_values := q\<rparr>) pth st x r = stateless N pth st x r"
  by (cases r) (simp_all add: stateless_def)

lemma batch_norm2d_vq_indep:
  "batch_norm2d (N\<lparr>vq_values := q\<rparr>) pth n st x = batch_norm2d N pth n st x"
  by (cases "shape x") (simp add: batch_norm2d_def Let_def)

lemma run_vq_indep:
  "run_layer (N\<lparr>vq_values := q\<rparr>) pth l st x = run_layer N pth l st x"
  "run_layers (N\<lparr>vq_values := q\<rparr>) pth i ls st x = run_layers N pth i ls st x"
proof (induction N pth l st x and N pth i ls st x rule: run_layer_run_layers.induct)
  case (9 N pth i l ls st x)
  obtain r s1 where a: "run_layer N (fst pth, snd pth @ [i]) l st x = (r, s1)"
    by (cases "run_layer N (fst pth, snd pth @ [i]) l st x")
  show ?case
  proof (cases r)
    case (Inl e)
    with a 9(1) show ?thesis by simp
  next
    case (Inr y)
    from 9(2)[OF a[symmetric] Inr] 9(1) a Inr show ?thesis by simp
  qed
qed (simp_all add: stateless_vq_indep batch_norm2d_vq_indep)

lemma decode_blocks_vq_indep:
  "decode_blocks (N\<lparr>vq_values := q\<rparr>) (m\<lparr>vquantizer := v\<rparr>) st t rd = decode_blocks N m st t rd"
  by (simp add: decode_blocks_def run_vq_indep split: prod.split sum.split)

lemma init_default: "init default_config = Inr (projr (init default_config))"
  by (rule init_projr) (simp add: default_config_simps)

section \<open>Runs of the input and output stages, and concrete runs\<close>

lemma tiny_hidden_config_simps:
  "in_channels tiny_hidden_config = 3" "out_channels tiny_hidden_config = 3"
  "up_down_scale_factor tiny_hidden_config = 2"
  "levels tiny_hidden_config = 2" "c_hidden tiny_hidden_config = 1"
  "c_latent tiny_hidden_config = 4" "codebook_size tiny_hidden_config = 8192"
  by (simp_all add: tiny_hidden_config_def default_config_def)

lemma c_levels_of_le_hidden: "i < n \<Longrightarrow> c_levels_of hidden n ! i \<le> hidden"
  by (simp add: c_levels_of_nth)

lemma default_c_levels: "c_levels_of 384 2 = [192, 384]"
  by code_simp

lemma c_levels_of_first: "0 < n \<Longrightarrow> c_levels_of hidden n ! 0 = hidden div 2 ^ (n - 1)"
  by (simp add: c_levels_of_nth)

lemma c_levels_of_last_hidden: "0 < n \<Longrightarrow> last (c_levels_of hidden n) = hidden"
  using c_levels_of_last[of n hidden] c_levels_of_top[of n hidden] by simp


lemma run_out_block:
  assumes "init cfg = Inr m" "0 < up_down_scale_factor cfg"
    and "shape y = (b, c_hidden cfg div 2 ^ (levels cfg - 1), h, w)" "0 < h" "0 < w"
  shows "run_layer N (''out_block'', []) (out_block m) st y =
    (Inr \<lparr>shape = (b, out_channels cfg, h * up_down_scale_factor cfg,
                   w * up_down_scale_factor cfg),
          data = layer_values N (''out_block'', [1])
            \<lparr>shape = (b, out_channels cfg * (up_down_scale_factor cfg) ^ 2, h, w),
             data = layer_values N (''out_block'', [0]) y\<rparr>\<rparr>, st)"
  using assms(2-5)
  by (simp add: init_Inr(6)[OF assms(1)] c_levels_of_first[OF init_Inr(1)[OF assms(1)]]
      stateless_def pixel_shuffle_shape_def conv2d_shape_def power2_eq_square)


lemma tmul_data: "tmul N t s = \<lparr>shape = shape t, data = map (\<lambda>v. scale_mul N v s) (data t)\<rparr>"
  by (simp add: tmul_def)


lemma default_model_decoder:
  "up_blocks (projr (init default_config)) =
     Sequential [Sequential [Conv2d 4 384 1 1 0 True],
       MixingResidualBlock 384 1536, MixingResidualBlock 384 1536, MixingResidualBlock 384 1536,
       MixingResidualBlock 384 1536, MixingResidualBlock 384 1536, MixingResidualBlock 384 1536,
       MixingResidualBlock 384 1536, MixingResidualBlock 384 1536, MixingResidualBlock 384 1536,
       MixingResidualBlock 384 1536, MixingResidualBlock 384 1536, MixingResidualBlock 384 1536,
       ConvTranspose2d 384 192 4 2 1, MixingResidualBlock 192 768]"
  "out_block (projr (init default_config)) =
     Sequential [Conv2d 192 12 1 1 0 True, PixelShuffle 2]"
  by code_simp+

lemma default_model_config: "config (projr (init default_config)) = default_config"
  by (rule init_Inr(2)[OF init_default])

lemma default_encode_trace:
  "fst (encode trace_numerics (projr (init default_config)) (new_state default_config)
        (image 1 3 8 8) rd)
     = Inr ((if rd then VQEncoderOutput else Tuple1)
         \<lparr>shape = (1, 4, 2, 2),
          data = map (\<lambda>v. sdiv v (scale_factor default_config))
            ([Fin 20402, Fin 20401, Fin 20003, Fin 20002, Fin 20001, Fin 10002, Fin 10001]
             @ data (image 1 3 8 8))\<rparr>)"
  by (simp add: encode_def default_model_encoder default_model_config stateless_def shape_image
      pixel_unshuffle_shape_def conv2d_shape_def mixing_residual_block_shape_def
      batch_norm2d_def Let_def new_state_def trace_numerics_def path_code_def tdiv_def)

lemma default_decode_trace:
  "fst (decode trace_numerics (projr (init default_config)) (new_state default_config)
        (image 1 4 2 2) q rd)
     = Inr ((if rd then DecoderOutput else Tuple1)
         \<lparr>shape = (1, 3, 8, 8),
          data = [Fin 40002, Fin 40001, Fin 30015, Fin 30014, Fin 30013, Fin 30012, Fin 30011,
                  Fin 30010, Fin 30009, Fin 30008, Fin 30007, Fin 30006, Fin 30005, Fin 30004,
                  Fin 30003, Fin 30002, Fin 30101]
            @ (if q then [] else [Fin 50000])
            @ map (\<lambda>v. smul v (scale_factor default_config)) (data (image 1 4 2 2))\<rparr>)"
  by (simp add: decode_def decode_blocks_def decode_quant_def vquantizer_forward_def
      default_model_decoder default_model_config stateless_def shape_image
      pixel_shuffle_shape_def conv2d_shape_def conv_transpose2d_shape_def
      mixing_residual_block_shape_def Let_def trace_numerics_def path_code_def tmul_def)

lemma valid_default: "valid_config default_config"
  by (simp add: valid_config_def default_config_simps)

lemma exact_trace: "exact_arithmetic trace_numerics"
  by (simp add: exact_arithmetic_def trace_numerics_def)

lemma exact_round_trip:
  assumes "exact_arithmetic N" "s \<noteq> 0"
  shows "tmul N (tdiv N h s) s = h"
proof -
  have "smul (sdiv v s) s = v" for v using assms(2) by (cases v) simp_all
  then show ?thesis using assms(1) by (simp add: exact_arithmetic_def tmul_def tdiv_def o_def)
qed

lemma rounding_breaks_round_trip:
  "tmul floor_numerics (tdiv floor_numerics \<lparr>shape = (1, 1, 1, 1), data = [Fin 7]\<rparr> 2) 2
     = \<lparr>shape = (1, 1, 1, 1), data = [Fin 6]\<rparr>"
proof -
  have "\<lfloor>(7::rat) / 2\<rfloor> = 3" by (rule floor_unique) simp_all
  then show ?thesis by (simp add: tmul_def tdiv_def floor_numerics_def null_numerics_def)
qed

lemma decode_vq_indep:
  "decode (N\<lparr>vq_values := q\<rparr>) (m\<lparr>vquantizer := v\<rparr>) st h True rd = decode N m st h True rd"
  by (simp add: decode_def decode_quant_def decode_blocks_vq_indep tmul_def)

lemma decode_aux_discarded:
  "decode (N\<lparr>vq_values := (\<lambda>z. (fst (vq_values N z), loss z, info z))\<rparr>) m st h False rd
     = decode N m st h False rd"
  using decode_blocks_vq_indep[where N = N and m = m and v = "vquantizer m"]
  by (simp add: decode_def decode_quant_def vquantizer_forward_def tmul_def split: prod.splits)

lemma decode_quant_data:
  "decode_quant N m h fnq =
     (if fnq
      then \<lparr>shape = shape h,
            data = map (\<lambda>v. scale_mul N v (scale_factor (config m))) (data h)\<rparr>
      else \<lparr>shape = shape h,
            data = fst (vq_values N
              \<lparr>shape = shape h,
               data = map (\<lambda>v. scale_mul N v (scale_factor (config m))) (data h)\<rparr>)\<rparr>)"
  by (simp add: decode_quant_def vquantizer_forward_def tmul_data split: prod.splits)

section \<open>The constructor and its schedule\<close>

text \<open>
  C5, as the code has it: for every configuration with \<open>levels \<ge> 1\<close> the schedule the
  constructor computes has \<open>levels\<close> entries, \<open>c_levels[i] = c_hidden // 2 ^ (levels - 1 - i)\<close>
  for every \<open>i < levels\<close>, index \<open>levels - 1\<close> holds \<open>c_hidden\<close>, the largest width, and
  index 0 holds the smallest. Index 0 is the width of the shallowest level: in an
  instance the constructor returns, the input stage projects to \<open>c_levels[0]\<close> channels
  and the output stage reads \<open>c_levels[0]\<close> channels.
\<close>

theorem c_levels_schedule:
  assumes "1 \<le> levels cfg"
  shows "length (c_levels_of (c_hidden cfg) (levels cfg)) = levels cfg
    \<and> (\<forall>i<levels cfg. c_levels_of (c_hidden cfg) (levels cfg) ! i
          = c_hidden cfg div 2 ^ (levels cfg - 1 - i))
    \<and> c_levels_of (c_hidden cfg) (levels cfg) ! (levels cfg - 1) = c_hidden cfg
    \<and> (\<forall>i<levels cfg.
          c_levels_of (c_hidden cfg) (levels cfg) ! 0 \<le> c_levels_of (c_hidden cfg) (levels cfg) ! i
          \<and> c_levels_of (c_hidden cfg) (levels cfg) ! i \<le> c_hidden cfg)
    \<and> (init cfg = Inr m \<longrightarrow>
          in_block m = Sequential
            [PixelUnshuffle (up_down_scale_factor cfg),
             Conv2d (in_channels cfg * (up_down_scale_factor cfg) ^ 2)
               (c_levels_of (c_hidden cfg) (levels cfg) ! 0) 1 1 0 True]
          \<and> out_block m = Sequential
            [Conv2d (c_levels_of (c_hidden cfg) (levels cfg) ! 0)
               (out_channels cfg * (up_down_scale_factor cfg) ^ 2) 1 1 0 True,
             PixelShuffle (up_down_scale_factor cfg)])"
proof -
  have n: "0 < levels cfg" using assms by simp
  show ?thesis
  proof (intro conjI allI impI)
    show "length (c_levels_of (c_hidden cfg) (levels cfg)) = levels cfg"
      by (rule length_c_levels_of)
    show "c_levels_of (c_hidden cfg) (levels cfg) ! i = c_hidden cfg div 2 ^ (levels cfg - 1 - i)"
      if "i < levels cfg" for i using that by (rule c_levels_of_nth)
    show "c_levels_of (c_hidden cfg) (levels cfg) ! (levels cfg - 1) = c_hidden cfg"
      using n by (rule c_levels_of_top)
    show "c_levels_of (c_hidden cfg) (levels cfg) ! 0 \<le> c_levels_of (c_hidden cfg) (levels cfg) ! i"
      if "i < levels cfg" for i using that by (intro c_levels_of_mono) simp_all
    show "c_levels_of (c_hidden cfg) (levels cfg) ! i \<le> c_hidden cfg"
      if "i < levels cfg" for i using that by (rule c_levels_of_le_hidden)
    show "in_block m = Sequential
            [PixelUnshuffle (up_down_scale_factor cfg),
             Conv2d (in_channels cfg * (up_down_scale_factor cfg) ^ 2)
               (c_levels_of (c_hidden cfg) (levels cfg) ! 0) 1 1 0 True]"
      if "init cfg = Inr m" using that by (rule init_Inr(3))
    show "out_block m = Sequential
            [Conv2d (c_levels_of (c_hidden cfg) (levels cfg) ! 0)
               (out_channels cfg * (up_down_scale_factor cfg) ^ 2) 1 1 0 True,
             PixelShuffle (up_down_scale_factor cfg)]"
      if "init cfg = Inr m" using that by (rule init_Inr(6))
  qed
qed

theorem c_levels_schedule_witness:
  "1 \<le> levels default_config \<and>
   init default_config = Inr (projr (init default_config)) \<and>
   c_levels_of (c_hidden default_config) (levels default_config) = [192, 384] \<and>
   in_block (projr (init default_config)) =
     Sequential [PixelUnshuffle 2, Conv2d 12 192 1 1 0 True] \<and>
   out_block (projr (init default_config)) =
     Sequential [Conv2d 192 12 1 1 0 True, PixelShuffle 2]"
proof -
  have n: "1 \<le> levels default_config" by (simp add: default_config_simps)
  from c_levels_schedule [OF n, of "projr (init default_config)"] init_default
  have "in_block (projr (init default_config)) = Sequential
          [PixelUnshuffle (up_down_scale_factor default_config),
           Conv2d (in_channels default_config * (up_down_scale_factor default_config) ^ 2)
             (c_levels_of (c_hidden default_config) (levels default_config) ! 0) 1 1 0 True]"
    and "out_block (projr (init default_config)) = Sequential
            [Conv2d (c_levels_of (c_hidden default_config) (levels default_config) ! 0)
               (out_channels default_config * (up_down_scale_factor default_config) ^ 2) 1 1 0 True,
             PixelShuffle (up_down_scale_factor default_config)]"
    by blast+
  then show ?thesis using n init_default by (simp add: default_config_simps default_c_levels)
qed

text \<open>
  Index 0 does not hold the widest level: the schedule of the default configuration is
  \<open>[192, 384]\<close>.
\<close>

theorem widest_index_counterexample:
  "c_levels_of (c_hidden default_config) (levels default_config) = [192, 384] \<and>
   c_levels_of (c_hidden default_config) (levels default_config) ! 0
     < c_levels_of (c_hidden default_config) (levels default_config) ! 1"
  by (simp add: default_config_simps default_c_levels)

text \<open>
  C4, as the code has it: for a configuration with at least one level, a codebook that
  is not empty and positive channel counts and scale factor, the constructor checks no
  divisibility. It raises (ValueError, from the first residual block) when
  \<open>c_hidden < 2 ^ (levels - 1)\<close>, where the schedule starts with the width 0, and returns
  an instance otherwise. The schedule is always the floor-division schedule
  \<open>c_levels[i] = c_hidden // 2 ^ (levels - 1 - i)\<close>, in which each width is twice the one
  before exactly when \<open>2 ^ (levels - 1)\<close> divides \<open>c_hidden\<close>.
\<close>

theorem init_checks_no_divisibility:
  assumes "0 < levels cfg" "0 < codebook_size cfg"
    and "0 < in_channels cfg" "0 < out_channels cfg" "0 < up_down_scale_factor cfg"
      "0 < c_latent cfg"
  shows "(c_hidden cfg < 2 ^ (levels cfg - 1) \<longrightarrow> init cfg = Inl ValueError)
    \<and> (2 ^ (levels cfg - 1) \<le> c_hidden cfg \<longrightarrow>
         (\<exists>m. init cfg = Inr m \<and> config m = cfg \<and>
              in_block m = Sequential
                [PixelUnshuffle (up_down_scale_factor cfg),
                 Conv2d (in_channels cfg * (up_down_scale_factor cfg) ^ 2)
                   (c_hidden cfg div 2 ^ (levels cfg - 1)) 1 1 0 True]))
    \<and> (\<forall>i<levels cfg. c_levels_of (c_hidden cfg) (levels cfg) ! i
          = c_hidden cfg div 2 ^ (levels cfg - 1 - i))
    \<and> ((\<forall>i. Suc i < levels cfg \<longrightarrow>
           c_levels_of (c_hidden cfg) (levels cfg) ! Suc i
             = 2 * c_levels_of (c_hidden cfg) (levels cfg) ! i)
         \<longleftrightarrow> 2 ^ (levels cfg - 1) dvd c_hidden cfg)"
proof (intro conjI impI)
  assume "c_hidden cfg < 2 ^ (levels cfg - 1)"
  then show "init cfg = Inl ValueError" using assms(1) by (simp add: init_eq)
next
  assume h: "2 ^ (levels cfg - 1) \<le> c_hidden cfg"
  then obtain m where m: "init cfg = Inr m" using init_ok assms(1,2) by blast
  have "c_levels_of (c_hidden cfg) (levels cfg) ! 0 = c_hidden cfg div 2 ^ (levels cfg - 1)"
    using assms(1) by (simp add: c_levels_of_nth)
  then show "\<exists>m. init cfg = Inr m \<and> config m = cfg \<and>
              in_block m = Sequential
                [PixelUnshuffle (up_down_scale_factor cfg),
                 Conv2d (in_channels cfg * (up_down_scale_factor cfg) ^ 2)
                   (c_hidden cfg div 2 ^ (levels cfg - 1)) 1 1 0 True]"
    using m init_Inr(2,3)[OF m] by simp
next
  show "\<forall>i<levels cfg. c_levels_of (c_hidden cfg) (levels cfg) ! i
          = c_hidden cfg div 2 ^ (levels cfg - 1 - i)"
    using c_levels_of_nth by blast
  show "(\<forall>i. Suc i < levels cfg \<longrightarrow>
           c_levels_of (c_hidden cfg) (levels cfg) ! Suc i
             = 2 * c_levels_of (c_hidden cfg) (levels cfg) ! i)
         \<longleftrightarrow> 2 ^ (levels cfg - 1) dvd c_hidden cfg"
    by (rule doubling_iff_dvd)
qed

theorem init_checks_no_divisibility_witness:
  "\<not> 2 ^ (levels odd_hidden_config - 1) dvd c_hidden odd_hidden_config \<and>
   init odd_hidden_config = Inr (projr (init odd_hidden_config)) \<and>
   in_block (projr (init odd_hidden_config)) =
     Sequential [PixelUnshuffle 2, Conv2d 12 2 1 1 0 True] \<and>
   \<not> 2 ^ (levels tiny_hidden_config - 1) dvd c_hidden tiny_hidden_config \<and>
   init tiny_hidden_config = Inl ValueError"
proof -
  from init_checks_no_divisibility [of odd_hidden_config]
  have "\<exists>m. init odd_hidden_config = Inr m \<and> in_block m =
      Sequential [PixelUnshuffle 2, Conv2d 12 2 1 1 0 True]"
    by (auto simp: odd_hidden_config_simps)
  moreover from init_checks_no_divisibility [of tiny_hidden_config]
  have "init tiny_hidden_config = Inl ValueError"
    by (simp add: tiny_hidden_config_simps)
  ultimately show ?thesis
    by (auto simp: odd_hidden_config_simps tiny_hidden_config_simps)
qed

text \<open>
  With \<open>c_hidden = 5\<close> and two levels, 2 does not divide 5, the constructor returns an
  instance, and its schedule \<open>[2, 5]\<close> satisfies the floor-division invariant: the
  configuration is neither rejected nor does it fail the invariant.
\<close>

theorem nondivisible_hidden_counterexample:
  "\<not> 2 ^ (levels odd_hidden_config - 1) dvd c_hidden odd_hidden_config \<and>
   \<not> isl (init odd_hidden_config) \<and>
   c_levels_of (c_hidden odd_hidden_config) (levels odd_hidden_config)
     = [c_hidden odd_hidden_config div 2 ^ (levels odd_hidden_config - 1 - 0),
        c_hidden odd_hidden_config div 2 ^ (levels odd_hidden_config - 1 - 1)] \<and>
   c_levels_of (c_hidden odd_hidden_config) (levels odd_hidden_config) = [2, 5] \<and>
   in_block (projr (init odd_hidden_config)) =
     Sequential [PixelUnshuffle 2, Conv2d 12 2 1 1 0 True]"
proof -
  have cl: "c_levels_of 5 2 = [2, 5]" by code_simp
  have i: "init odd_hidden_config = Inr (projr (init odd_hidden_config))"
    by (rule init_projr) (simp add: odd_hidden_config_simps)
  have "\<not> isl (init odd_hidden_config)" by (subst i) simp
  moreover have "in_block (projr (init odd_hidden_config)) =
     Sequential [PixelUnshuffle 2, Conv2d 12 2 1 1 0 True]"
    by (simp add: init_Inr(3)[OF i] odd_hidden_config_simps cl)
  ultimately show ?thesis by (simp add: odd_hidden_config_simps cl)
qed

section \<open>The scaling step\<close>

text \<open>
  C8: in exact arithmetic and for a nonzero scale factor \<open>s\<close>, dividing a tensor \<open>h\<close>
  elementwise by \<open>s\<close> and multiplying the quotient elementwise by \<open>s\<close> gives \<open>h\<close> back.
  These are the scaling steps of the code: with \<open>s\<close> the configured scale factor, the
  tensor \<^verbatim>\<open>decode\<close> hands to its blocks (without quantization) for the latent \<open>h / s\<close> is
  \<open>h\<close>, and for a latent that \<^verbatim>\<open>encode\<close> returned it is the tensor the down blocks
  returned. The hypothesis of exact arithmetic is needed: the code divides and
  multiplies in floating point, and lemma \<open>rounding_breaks_round_trip\<close> shows an
  arithmetic that rounds, for which 7 comes back as 6.
\<close>

theorem scaling_round_trip:
  assumes "exact_arithmetic N" "s \<noteq> 0" "scale_factor (config m) = s"
  shows "tmul N (tdiv N h s) s = h
    \<and> decode_quant N m (tdiv N h s) True = h
    \<and> (encode N m st x rd = (Inr out, st') \<longrightarrow>
         (\<exists>h0 st1 h1.
            run_layer N (''in_block'', []) (in_block m) st x = (Inr h0, st1)
          \<and> run_layer N (''down_blocks'', []) (down_blocks m) st1 h0 = (Inr h1, st')
          \<and> output_tensor out = tdiv N h1 s
          \<and> decode_quant N m (output_tensor out) True = h1))"
proof (intro conjI impI)
  show rt: "tmul N (tdiv N h s) s = h" for h using assms(1,2) by (rule exact_round_trip)
  show dq: "decode_quant N m (tdiv N h s) True = h" for h
    using rt[of h] by (simp add: decode_quant_def assms(3))
  assume e: "encode N m st x rd = (Inr out, st')"
  obtain r0 st1 where a: "run_layer N (''in_block'', []) (in_block m) st x = (r0, st1)"
    by (cases "run_layer N (''in_block'', []) (in_block m) st x")
  from e a obtain h0 where h0: "r0 = Inr h0"
    by (cases r0) (simp_all add: encode_def)
  obtain r1 st2 where b: "run_layer N (''down_blocks'', []) (down_blocks m) st1 h0 = (r1, st2)"
    by (cases "run_layer N (''down_blocks'', []) (down_blocks m) st1 h0")
  from e a h0 b obtain h1 where h1: "r1 = Inr h1"
    by (cases r1) (simp_all add: encode_def)
  from e a h0 b h1 have o: "output_tensor out = tdiv N h1 s" and s: "st2 = st'"
    by (auto simp: encode_def Let_def assms(3) split: if_splits)
  show "\<exists>h0 st1 h1.
            run_layer N (''in_block'', []) (in_block m) st x = (Inr h0, st1)
          \<and> run_layer N (''down_blocks'', []) (down_blocks m) st1 h0 = (Inr h1, st')
          \<and> output_tensor out = tdiv N h1 s
          \<and> decode_quant N m (output_tensor out) True = h1"
    using a h0 b h1 o s dq[of h1] by auto
qed

theorem scaling_round_trip_witness:
  "exact_arithmetic trace_numerics \<and>
   scale_factor (config (projr (init default_config))) \<noteq> 0 \<and>
   decode_quant trace_numerics (projr (init default_config))
     (output_tensor (projr (fst (encode trace_numerics (projr (init default_config))
        (new_state default_config) (image 1 3 8 8) True)))) True
     = \<lparr>shape = (1, 4, 2, 2),
        data = [Fin 20402, Fin 20401, Fin 20003, Fin 20002, Fin 20001, Fin 10002, Fin 10001]
               @ data (image 1 3 8 8)\<rparr>"
proof -
  let ?m = "projr (init default_config)"
  let ?h = "\<lparr>shape = (1, 4, 2, 2),
        data = [Fin 20402, Fin 20401, Fin 20003, Fin 20002, Fin 20001, Fin 10002, Fin 10001]
               @ data (image 1 3 8 8)\<rparr>"
  have s: "scale_factor (config ?m) \<noteq> 0"
    unfolding default_model_config by (simp add: default_config_def)
  have o: "output_tensor (projr (fst (encode trace_numerics ?m
        (new_state default_config) (image 1 3 8 8) True)))
      = tdiv trace_numerics ?h (scale_factor (config ?m))"
  proof -
    have t: "tdiv trace_numerics ?h s
        = \<lparr>shape = (1, 4, 2, 2),
           data = map (\<lambda>v. sdiv v s)
             ([Fin 20402, Fin 20401, Fin 20003, Fin 20002, Fin 20001, Fin 10002, Fin 10001]
              @ data (image 1 3 8 8))\<rparr>" for s
      by (simp add: tdiv_def trace_numerics_def)
    show ?thesis unfolding default_encode_trace[of True] t default_model_config by simp
  qed
  from scaling_round_trip [OF exact_trace s refl, of ?h]
  have "decode_quant trace_numerics ?m (tdiv trace_numerics ?h (scale_factor (config ?m))) True
      = ?h" by blast
  with o s exact_trace show ?thesis by simp
qed

section \<open>Shapes of encode and of the round trip\<close>

text \<open>
  C3, as the code has it: for a valid configuration and a non-empty batch of shape
  \<open>(b, in_channels, H, W)\<close> with \<open>H\<close> and \<open>W\<close> positive multiples of
  \<open>up_down_scale_factor * 2 ^ (levels - 1)\<close>, \<^verbatim>\<open>encode\<close> returns a latent of shape
  \<open>(b, c_latent, H div (up_down_scale_factor * 2 ^ (levels - 1)),
  W div (up_down_scale_factor * 2 ^ (levels - 1)))\<close>: the pixel unshuffle divides by the
  scale factor once, and each further level is a stride-2 convolution. With scale
  factor 2 this is \<open>H div scale ^ levels\<close>, as the spec has it. In training mode batch
  normalisation refuses a latent with a single value per channel. The spec's example
  follows: with the default configuration \<open>(1, 3, 64, 64)\<close> encodes to \<open>(1, 4, 16, 16)\<close>.
\<close>

theorem encode_latent_shape:
  assumes "valid_config cfg" "init cfg = Inr m"
    and "shape x = (b, in_channels cfg, H, W)" "0 < H" "0 < W"
    and "up_down_scale_factor cfg * 2 ^ (levels cfg - 1) dvd H"
    and "up_down_scale_factor cfg * 2 ^ (levels cfg - 1) dvd W"
    and "\<not> (training st \<and>
            b * (H div (up_down_scale_factor cfg * 2 ^ (levels cfg - 1)))
              * (W div (up_down_scale_factor cfg * 2 ^ (levels cfg - 1))) = 1)"
    and "0 < b"
  shows "\<exists>t st1. encode N m st x True = (Inr (VQEncoderOutput t), st1)
           \<and> shape t = (b, c_latent cfg,
                         H div (up_down_scale_factor cfg * 2 ^ (levels cfg - 1)),
                         W div (up_down_scale_factor cfg * 2 ^ (levels cfg - 1)))
           \<and> (up_down_scale_factor cfg = 2 \<longrightarrow>
                shape t = (b, c_latent cfg,
                           H div up_down_scale_factor cfg ^ levels cfg,
                           W div up_down_scale_factor cfg ^ levels cfg))"
proof -
  let ?r = "up_down_scale_factor cfg" and ?p = "2 ^ (levels cfg - 1) :: nat"
  have r: "0 < ?r" and n: "0 < levels cfg" and ic: "0 < in_channels cfg"
    using assms(1) by (rule valid_configD)+
  have p: "0 < ?p" by simp
  note aH = scale_arith[OF r p assms(6,4)] and aW = scale_arith[OF r p assms(7,5)]
  have bn: "\<not> (training st \<and> b * (H div ?r div ?p) * (W div ?r div ?p) = 1)"
    unfolding aH(3) aW(3) by (rule assms(8))
  obtain t st1 where e: "encode N m st x True = (Inr (VQEncoderOutput t), st1)"
      "shape t = (b, c_latent cfg, H div ?r div ?p, W div ?r div ?p)"
    using encode_shape_floor[OF assms(2) r assms(3) aH(1) aW(1) aH(2) aW(2) bn assms(9) ic, of N]
    by blast
  have pw: "?r = 2 \<Longrightarrow> ?r * ?p = ?r ^ levels cfg"
    using n by (cases "levels cfg") simp_all
  have s: "shape t = (b, c_latent cfg, H div (?r * ?p), W div (?r * ?p))"
    using e(2) unfolding aH(3) aW(3) .
  have "shape t = (b, c_latent cfg, H div ?r ^ levels cfg, W div ?r ^ levels cfg)" if "?r = 2"
    using s unfolding pw[OF that] .
  with e(1) s show ?thesis by blast
qed

theorem encode_latent_shape_witness:
  "valid_config default_config \<and>
   shape (output_tensor (projr (fst (encode null_numerics (projr (init default_config))
      (new_state default_config) (image 1 3 64 64) True)))) = (1, 4, 16, 16)"
proof -
  have v: "valid_config default_config"
    by (simp add: valid_config_def default_config_simps)
  have i: "init default_config = Inr (projr (init default_config))"
    by (rule init_projr) (simp add: default_config_simps)
  have "\<exists>t st1. encode null_numerics (projr (init default_config)) (new_state default_config)
            (image 1 3 64 64) True = (Inr (VQEncoderOutput t), st1) \<and> shape t = (1, 4, 16, 16)"
    using encode_latent_shape [OF v i, of "image 1 3 64 64" 1 64 64 "new_state default_config"
        null_numerics]
    by (simp add: shape_image default_config_simps)
  with v show ?thesis by auto
qed

text \<open>
  The formula \<open>H div scale ^ levels\<close> fails for a scale factor other than 2: with scale factor 3 and
  two levels, an 18 x 18 image (18 is a multiple of \<open>3 ^ 2\<close>) encodes to 3 x 3, not to
  \<open>18 div 3 ^ 2 = 2\<close>.
\<close>

theorem encode_latent_shape_counterexample:
  "up_down_scale_factor scale3_config ^ levels scale3_config dvd (18::nat) \<and>
   18 div up_down_scale_factor scale3_config ^ levels scale3_config = (2::nat) \<and>
   shape (output_tensor (projr (fst (encode null_numerics (projr (init scale3_config))
      (new_state scale3_config) (image 1 3 18 18) True)))) = (1, 4, 3, 3)"
proof -
  have i: "init scale3_config = Inr (projr (init scale3_config))"
    by (rule init_projr) (simp add: scale3_config_simps)
  have "\<exists>t st1. encode null_numerics (projr (init scale3_config)) (new_state scale3_config)
            (image 1 3 18 18) True = (Inr (VQEncoderOutput t), st1) \<and> shape t = (1, 4, 3, 3)
            \<and> training st1 = training (new_state scale3_config)"
    using encode_shape_floor [OF i, of "image 1 3 18 18" 1 18 18 "new_state scale3_config"
        null_numerics]
    by (simp add: shape_image scale3_config_simps)
  then show ?thesis by (auto simp: scale3_config_simps)
qed

text \<open>
  C1, as the code has it: under the same conditions, decoding the encoded image
  without quantization returns a tensor of shape \<open>(b, out_channels, H, W)\<close>, which is
  the shape of the image when \<open>out_channels = in_channels\<close>.
\<close>

theorem decode_encode_shape:
  assumes "valid_config cfg" "init cfg = Inr m"
    and "shape x = (b, in_channels cfg, H, W)" "0 < H" "0 < W"
    and "up_down_scale_factor cfg * 2 ^ (levels cfg - 1) dvd H"
    and "up_down_scale_factor cfg * 2 ^ (levels cfg - 1) dvd W"
    and "\<not> (training st \<and>
            b * (H div (up_down_scale_factor cfg * 2 ^ (levels cfg - 1)))
              * (W div (up_down_scale_factor cfg * 2 ^ (levels cfg - 1))) = 1)"
    and "0 < b"
  shows "\<exists>y st2. decode_encode N m st x True = (Inr (DecoderOutput y), st2)
           \<and> shape y = (b, out_channels cfg, H, W)
           \<and> (out_channels cfg = in_channels cfg \<longrightarrow> shape y = shape x)"
proof -
  let ?r = "up_down_scale_factor cfg" and ?p = "2 ^ (levels cfg - 1) :: nat"
  have r: "0 < ?r" and ic: "0 < in_channels cfg" using assms(1) by (rule valid_configD)+
  have p: "0 < ?p" by simp
  note aH = scale_arith[OF r p assms(6,4)] and aW = scale_arith[OF r p assms(7,5)]
  have bn: "\<not> (training st \<and> b * (H div ?r div ?p) * (W div ?r div ?p) = 1)"
    unfolding aH(3) aW(3) by (rule assms(8))
  obtain y st2 where d: "decode_encode N m st x True = (Inr (DecoderOutput y), st2)"
      "shape y = (b, out_channels cfg, H div ?r div ?p * ?p * ?r, W div ?r div ?p * ?p * ?r)"
    using round_trip_shape[OF assms(2) r assms(3) aH(1) aW(1) aH(2) aW(2) bn assms(9) ic, of N]
    by blast
  have "shape y = (b, out_channels cfg, H, W)"
    using d(2) by (simp only: aH(3,4) aW(3,4))
  then show ?thesis using d(1) assms(3) by auto
qed

theorem decode_encode_shape_witness:
  "valid_config default_config \<and>
   shape (output_tensor (projr (fst (decode_encode null_numerics (projr (init default_config))
      (new_state default_config) (image 1 3 64 64) True)))) = shape (image 1 3 64 64)"
proof -
  have v: "valid_config default_config"
    by (simp add: valid_config_def default_config_simps)
  have i: "init default_config = Inr (projr (init default_config))"
    by (rule init_projr) (simp add: default_config_simps)
  have "\<exists>y st2. decode_encode null_numerics (projr (init default_config))
            (new_state default_config) (image 1 3 64 64) True = (Inr (DecoderOutput y), st2)
            \<and> shape y = (1, 3, 64, 64)"
    using decode_encode_shape [OF v i, of "image 1 3 64 64" 1 64 64 "new_state default_config"
        null_numerics]
    by (simp add: shape_image default_config_simps)
  with v show ?thesis by (auto simp: shape_image)
qed

text \<open>
  The shape of the image itself is not returned in two cases. With \<open>out_channels = 1\<close> and three input
  channels, the round trip of a \<open>(1, 3, 64, 64)\<close> image has shape \<open>(1, 1, 64, 64)\<close>.
  With scale factor 3 and two levels, a 9 x 9 image meets the spec's precondition
  (9 is a multiple of \<open>3 ^ 2\<close>) and comes back 6 x 6.
\<close>

theorem decode_encode_shape_counterexample:
  "valid_config mono_out_config \<and>
   shape (output_tensor (projr (fst (decode_encode null_numerics (projr (init mono_out_config))
      (new_state mono_out_config) (image 1 3 64 64) True)))) = (1, 1, 64, 64) \<and>
   shape (image 1 3 64 64) = (1, 3, 64, 64) \<and>
   up_down_scale_factor scale3_config ^ levels scale3_config dvd (9::nat) \<and>
   shape (output_tensor (projr (fst (decode_encode null_numerics (projr (init scale3_config))
      (eval_mode (new_state scale3_config)) (image 1 3 9 9) True)))) = (1, 3, 6, 6) \<and>
   shape (image 1 3 9 9) = (1, 3, 9, 9)"
proof -
  have v: "valid_config mono_out_config"
    by (simp add: valid_config_def mono_out_config_simps)
  have i: "init mono_out_config = Inr (projr (init mono_out_config))"
    by (rule init_projr) (simp add: mono_out_config_simps)
  have i3: "init scale3_config = Inr (projr (init scale3_config))"
    by (rule init_projr) (simp add: scale3_config_simps)
  have 1: "\<exists>y st2. decode_encode null_numerics (projr (init mono_out_config))
            (new_state mono_out_config) (image 1 3 64 64) True = (Inr (DecoderOutput y), st2)
            \<and> shape y = (1, 1, 64, 64)"
    using round_trip_shape [OF i, of "image 1 3 64 64" 1 64 64 "new_state mono_out_config"
        null_numerics]
    by (simp add: shape_image mono_out_config_simps)
  have 2: "\<exists>y st2. decode_encode null_numerics (projr (init scale3_config))
            (eval_mode (new_state scale3_config)) (image 1 3 9 9) True = (Inr (DecoderOutput y), st2)
            \<and> shape y = (1, 3, 6, 6)"
    using round_trip_shape [OF i3, of "image 1 3 9 9" 1 9 9 "eval_mode (new_state scale3_config)"
        null_numerics]
    by (simp add: shape_image scale3_config_simps new_state_training)
  from v 1 2 show ?thesis by (auto simp: shape_image scale3_config_simps)
qed

section \<open>The steps of encode and decode\<close>



text \<open>
  C7: for an instance of a valid configuration and a latent of its shape, \<^verbatim>\<open>decode\<close>
  without quantization (\<^verbatim>\<open>force_not_quantize=True\<close>, the default) multiplies every element
  of the latent by the scale factor and runs the up blocks and then the output stage (a
  1x1 convolution and a pixel shuffle) on the product; the result is the same whatever
  the quantizer computes. With quantization it runs them on the first component of the
  quantizer's result for that product; the loss and the auxiliary information do not
  reach the result. For the default configuration the returned image lists the
  seventeen layers, in order, after the quantizer when it is asked for.
\<close>

theorem decode_steps:
  assumes "valid_config cfg" "init cfg = Inr m"
    and "shape h = (b, c_latent cfg, h', w')" "0 < b" "0 < h'" "0 < w'"
  shows "up_blocks m = Sequential
           (fold (up_layers (c_levels_of (c_hidden cfg) (levels cfg)) (levels cfg)
                    (bottleneck_blocks cfg)) [0..<levels cfg]
              [Sequential [Conv2d (c_latent cfg) (c_hidden cfg) 1 1 0 True]])
    \<and> out_block m = Sequential
           [Conv2d (c_hidden cfg div 2 ^ (levels cfg - 1))
              (out_channels cfg * (up_down_scale_factor cfg) ^ 2) 1 1 0 True,
            PixelShuffle (up_down_scale_factor cfg)]
    \<and> (\<exists>quant y u dec.
          quant =
            (if force_not_quantize
             then \<lparr>shape = shape h,
                   data = map (\<lambda>v. scale_mul N v (scale_factor cfg)) (data h)\<rparr>
             else \<lparr>shape = shape h,
                   data = fst (vq_values N
                     \<lparr>shape = shape h,
                      data = map (\<lambda>v. scale_mul N v (scale_factor cfg)) (data h)\<rparr>)\<rparr>)
        \<and> run_layer N (''up_blocks'', []) (up_blocks m) st quant = (Inr y, st)
        \<and> shape y = (b, c_hidden cfg div 2 ^ (levels cfg - 1),
                      h' * 2 ^ (levels cfg - 1), w' * 2 ^ (levels cfg - 1))
        \<and> u = \<lparr>shape = (b, out_channels cfg * (up_down_scale_factor cfg) ^ 2,
                        h' * 2 ^ (levels cfg - 1), w' * 2 ^ (levels cfg - 1)),
               data = layer_values N (''out_block'', [0]) y\<rparr>
        \<and> dec = \<lparr>shape = (b, out_channels cfg,
                          h' * 2 ^ (levels cfg - 1) * up_down_scale_factor cfg,
                          w' * 2 ^ (levels cfg - 1) * up_down_scale_factor cfg),
                 data = layer_values N (''out_block'', [1]) u\<rparr>
        \<and> run_layer N (''out_block'', []) (out_block m) st y = (Inr dec, st)
        \<and> decode N m st h force_not_quantize rd =
            (Inr ((if rd then DecoderOutput else Tuple1) dec), st))
    \<and> decode (N\<lparr>vq_values := q\<rparr>) (m\<lparr>vquantizer := v\<rparr>) st h True rd
        = decode N m st h True rd
    \<and> decode (N\<lparr>vq_values := (\<lambda>z. (fst (vq_values N z), loss z, info z))\<rparr>) m st h False rd
        = decode N m st h False rd"
proof (intro conjI)
  let ?r = "up_down_scale_factor cfg" and ?p = "2 ^ (levels cfg - 1) :: nat"
  have r: "0 < ?r" and n: "0 < levels cfg" using assms(1) by (rule valid_configD)+
  show "up_blocks m = Sequential
           (fold (up_layers (c_levels_of (c_hidden cfg) (levels cfg)) (levels cfg)
                    (bottleneck_blocks cfg)) [0..<levels cfg]
              [Sequential [Conv2d (c_latent cfg) (c_hidden cfg) 1 1 0 True]])"
    using init_Inr(5)[OF assms(2)] by (simp add: c_levels_of_last_hidden[OF n])
  show "out_block m = Sequential
           [Conv2d (c_hidden cfg div 2 ^ (levels cfg - 1))
              (out_channels cfg * (up_down_scale_factor cfg) ^ 2) 1 1 0 True,
            PixelShuffle (up_down_scale_factor cfg)]"
    using init_Inr(6)[OF assms(2)] by (simp add: c_levels_of_first[OF n])
  show "decode (N\<lparr>vq_values := q\<rparr>) (m\<lparr>vquantizer := v\<rparr>) st h True rd
        = decode N m st h True rd"
    by (rule decode_vq_indep)
  show "decode (N\<lparr>vq_values := (\<lambda>z. (fst (vq_values N z), loss z, info z))\<rparr>) m st h False rd
        = decode N m st h False rd"
    by (rule decode_aux_discarded)
  define quant where "quant = decode_quant N m h force_not_quantize"
  have q: "quant =
            (if force_not_quantize
             then \<lparr>shape = shape h,
                   data = map (\<lambda>v. scale_mul N v (scale_factor cfg)) (data h)\<rparr>
             else \<lparr>shape = shape h,
                   data = fst (vq_values N
                     \<lparr>shape = shape h,
                      data = map (\<lambda>v. scale_mul N v (scale_factor cfg)) (data h)\<rparr>)\<rparr>)"
    unfolding quant_def decode_quant_data init_Inr(2)[OF assms(2)] ..
  have sq: "shape quant = (b, c_latent cfg, h', w')"
    unfolding quant_def by (simp add: shape_decode_quant assms(3))
  have "out_shape (training st) (up_blocks m) (shape quant)
      = Inr (b, c_hidden cfg div ?p, h' * ?p, w' * ?p)"
    using up_blocks_shape[OF assms(2,5,6)] by (simp add: sq c_levels_of_first[OF n])
  then obtain y st1 where 1: "run_layer N (''up_blocks'', []) (up_blocks m) st quant = (Inr y, st1)"
      "shape y = (b, c_hidden cfg div ?p, h' * ?p, w' * ?p)"
    using run_layer_Inr[where N = N and pth = "(''up_blocks'', [])"] by blast
  have "st1 = st"
    using run_bn_free(1)[of "up_blocks m" N "(''up_blocks'', [])" st quant]
      bn_free_init(1)[OF assms(2)] 1(1) by simp
  with 1 have up: "run_layer N (''up_blocks'', []) (up_blocks m) st quant = (Inr y, st)" by simp
  define u where "u = \<lparr>shape = (b, out_channels cfg * ?r ^ 2, h' * ?p, w' * ?p),
               data = layer_values N (''out_block'', [0]) y\<rparr>"
  define dec where "dec = \<lparr>shape = (b, out_channels cfg, h' * ?p * ?r, w' * ?p * ?r),
                 data = layer_values N (''out_block'', [1]) u\<rparr>"
  have pos: "0 < h' * ?p" "0 < w' * ?p" using assms(5,6) by simp_all
  have 2: "run_layer N (''out_block'', []) (out_block m) st y = (Inr dec, st)"
    unfolding dec_def u_def by (rule run_out_block[OF assms(2) r 1(2) pos])
  have 3: "decode N m st h force_not_quantize rd =
            (Inr ((if rd then DecoderOutput else Tuple1) dec), st)"
    using up 2 by (simp add: decode_def decode_blocks_def quant_def)
  show "\<exists>quant y u dec.
          quant =
            (if force_not_quantize
             then \<lparr>shape = shape h,
                   data = map (\<lambda>v. scale_mul N v (scale_factor cfg)) (data h)\<rparr>
             else \<lparr>shape = shape h,
                   data = fst (vq_values N
                     \<lparr>shape = shape h,
                      data = map (\<lambda>v. scale_mul N v (scale_factor cfg)) (data h)\<rparr>)\<rparr>)
        \<and> run_layer N (''up_blocks'', []) (up_blocks m) st quant = (Inr y, st)
        \<and> shape y = (b, c_hidden cfg div 2 ^ (levels cfg - 1),
                      h' * 2 ^ (levels cfg - 1), w' * 2 ^ (levels cfg - 1))
        \<and> u = \<lparr>shape = (b, out_channels cfg * (up_down_scale_factor cfg) ^ 2,
                        h' * 2 ^ (levels cfg - 1), w' * 2 ^ (levels cfg - 1)),
               data = layer_values N (''out_block'', [0]) y\<rparr>
        \<and> dec = \<lparr>shape = (b, out_channels cfg,
                          h' * 2 ^ (levels cfg - 1) * up_down_scale_factor cfg,
                          w' * 2 ^ (levels cfg - 1) * up_down_scale_factor cfg),
                 data = layer_values N (''out_block'', [1]) u\<rparr>
        \<and> run_layer N (''out_block'', []) (out_block m) st y = (Inr dec, st)
        \<and> decode N m st h force_not_quantize rd =
            (Inr ((if rd then DecoderOutput else Tuple1) dec), st)"
    using q up 1(2) 2 3 unfolding u_def dec_def by blast
qed

theorem decode_steps_witness:
  "valid_config default_config \<and>
   init default_config = Inr (projr (init default_config)) \<and>
   fst (decode trace_numerics (projr (init default_config)) (new_state default_config)
        (image 1 4 2 2) True True)
     = Inr (DecoderOutput
         \<lparr>shape = (1, 3, 8, 8),
          data = [Fin 40002, Fin 40001, Fin 30015, Fin 30014, Fin 30013, Fin 30012, Fin 30011,
                  Fin 30010, Fin 30009, Fin 30008, Fin 30007, Fin 30006, Fin 30005, Fin 30004,
                  Fin 30003, Fin 30002, Fin 30101]
            @ map (\<lambda>v. smul v (scale_factor default_config)) (data (image 1 4 2 2))\<rparr>) \<and>
   fst (decode trace_numerics (projr (init default_config)) (new_state default_config)
        (image 1 4 2 2) False True)
     = Inr (DecoderOutput
         \<lparr>shape = (1, 3, 8, 8),
          data = [Fin 40002, Fin 40001, Fin 30015, Fin 30014, Fin 30013, Fin 30012, Fin 30011,
                  Fin 30010, Fin 30009, Fin 30008, Fin 30007, Fin 30006, Fin 30005, Fin 30004,
                  Fin 30003, Fin 30002, Fin 30101, Fin 50000]
            @ map (\<lambda>v. smul v (scale_factor default_config)) (data (image 1 4 2 2))\<rparr>) \<and>
   decode (trace_numerics\<lparr>vq_values := (\<lambda>z. ([Fin 1], NonFin, [7]))\<rparr>)
       (projr (init default_config)) (new_state default_config) (image 1 4 2 2) True True
     = decode trace_numerics (projr (init default_config)) (new_state default_config)
       (image 1 4 2 2) True True"
proof -
  note t = decode_steps [OF valid_default init_default, of "image 1 4 2 2" 1 2 2
      True trace_numerics "new_state default_config" True "\<lambda>z. ([Fin 1], NonFin, [7])"
      "vquantizer (projr (init default_config))"]
  have "decode (trace_numerics\<lparr>vq_values := (\<lambda>z. ([Fin 1], NonFin, [7]))\<rparr>)
       (projr (init default_config)) (new_state default_config) (image 1 4 2 2) True True
     = decode trace_numerics (projr (init default_config)) (new_state default_config)
       (image 1 4 2 2) True True"
    using t by (simp add: shape_image default_config_simps)
  then show ?thesis
    using valid_default init_default default_decode_trace[of True True]
      default_decode_trace[of False True]
    by simp
qed

section \<open>forward, return_dict and state\<close>

text \<open>
  C2: \<^verbatim>\<open>forward(x)\<close> is \<^verbatim>\<open>decode(encode(x).latents)\<close> without quantization: the same result
  and the same state after the call. Calling the composition after \<^verbatim>\<open>forward\<close>, in the
  state \<^verbatim>\<open>forward\<close> left, gives the same tensor again.
\<close>

theorem forward_is_decode_encode:
  "forward N m st x rd = decode_encode N m st x rd \<and>
   fst (decode_encode N m (snd (forward N m st x rd)) x rd) = fst (forward N m st x rd)"
proof
  show 1: "forward N m st x rd = decode_encode N m st x rd"
    by (rule forward_decode_encode)
  have "same_mode st (snd (forward N m st x rd))"
    unfolding 1 by (rule decode_encode_stays)
  then show "fst (decode_encode N m (snd (forward N m st x rd)) x rd) = fst (forward N m st x rd)"
    unfolding 1 by (rule decode_encode_same_mode(1)[symmetric])
qed

theorem forward_is_decode_encode_witness:
  "forward null_numerics (projr (init default_config)) (new_state default_config)
       (image 1 3 8 8) True
     = decode_encode null_numerics (projr (init default_config)) (new_state default_config)
       (image 1 3 8 8) True \<and>
   shape (output_tensor (projr (fst (forward null_numerics (projr (init default_config))
       (new_state default_config) (image 1 3 8 8) True)))) = (1, 3, 8, 8)"
proof -
  note f = forward_is_decode_encode [of null_numerics "projr (init default_config)"
      "new_state default_config" "image 1 3 8 8" True]
  have "\<exists>y st2. decode_encode null_numerics (projr (init default_config))
            (new_state default_config) (image 1 3 8 8) True = (Inr (DecoderOutput y), st2)
            \<and> shape y = (1, 3, 8, 8)"
    using round_trip_shape [OF init_default, of "image 1 3 8 8" 1 8 8 "new_state default_config"
        null_numerics]
    by (simp add: shape_image default_config_simps)
  with f show ?thesis by auto
qed

text \<open>
  C10: for a valid configuration, image and latent, \<^verbatim>\<open>encode\<close>, \<^verbatim>\<open>decode\<close> and \<^verbatim>\<open>forward\<close>
  with \<^verbatim>\<open>return_dict=False\<close> return a one-element tuple whose element is the tensor that
  \<^verbatim>\<open>return_dict=True\<close> returns in \<^verbatim>\<open>VQEncoderOutput\<close> (encode) or \<^verbatim>\<open>DecoderOutput\<close>
  (decode, forward), and leave the same state. For every input, valid or not, there is
  one computed result (a tensor or an exception, and a state) that the choice of
  \<^verbatim>\<open>return_dict\<close> only wraps.
\<close>

theorem return_dict_same_tensor:
  assumes "valid_config cfg" "init cfg = Inr m"
    and "shape x = (b, in_channels cfg, H, W)" "0 < H" "0 < W"
    and "up_down_scale_factor cfg * 2 ^ (levels cfg - 1) dvd H"
    and "up_down_scale_factor cfg * 2 ^ (levels cfg - 1) dvd W"
    and "\<not> (training st \<and>
            b * (H div (up_down_scale_factor cfg * 2 ^ (levels cfg - 1)))
              * (W div (up_down_scale_factor cfg * 2 ^ (levels cfg - 1))) = 1)"
    and "0 < b"
    and "shape h = (b', c_latent cfg, h', w')" "0 < b'" "0 < h'" "0 < w'"
  shows "(\<exists>t st1. encode N m st x False = (Inr (Tuple1 t), st1) \<and>
                  encode N m st x True = (Inr (VQEncoderOutput t), st1)) \<and>
   (\<exists>d st1. decode N m st h q False = (Inr (Tuple1 d), st1) \<and>
            decode N m st h q True = (Inr (DecoderOutput d), st1)) \<and>
   (\<exists>d st1. forward N m st x False = (Inr (Tuple1 d), st1) \<and>
            forward N m st x True = (Inr (DecoderOutput d), st1)) \<and>
   (\<forall>m0 st0 x0 h0 q0.
      (\<exists>r. encode N m0 st0 x0 False = wrap_result Tuple1 r \<and>
           encode N m0 st0 x0 True = wrap_result VQEncoderOutput r) \<and>
      (\<exists>r. decode N m0 st0 h0 q0 False = wrap_result Tuple1 r \<and>
           decode N m0 st0 h0 q0 True = wrap_result DecoderOutput r) \<and>
      (\<exists>r. forward N m0 st0 x0 False = wrap_result Tuple1 r \<and>
           forward N m0 st0 x0 True = wrap_result DecoderOutput r))"
proof (intro conjI allI)
  let ?r = "up_down_scale_factor cfg" and ?p = "2 ^ (levels cfg - 1) :: nat"
  have r: "0 < ?r" and ic: "0 < in_channels cfg" using assms(1) by (rule valid_configD)+
  have p: "0 < ?p" by simp
  note aH = scale_arith[OF r p assms(6,4)] and aW = scale_arith[OF r p assms(7,5)]
  have bn: "\<not> (training st \<and> b * (H div ?r div ?p) * (W div ?r div ?p) = 1)"
    unfolding aH(3) aW(3) by (rule assms(8))
  obtain t st1 where e: "encode N m st x True = (Inr (VQEncoderOutput t), st1)"
    using encode_shape_floor[OF assms(2) r assms(3) aH(1) aW(1) aH(2) aW(2) bn assms(9) ic, of N]
    by blast
  then have "encode N m st x False = (Inr (Tuple1 t), st1)"
    using encode_wrap[of N m st x False] by simp
  with e show "\<exists>t st1. encode N m st x False = (Inr (Tuple1 t), st1) \<and>
                  encode N m st x True = (Inr (VQEncoderOutput t), st1)" by blast
  obtain d st2 where d: "decode N m st h q True = (Inr (DecoderOutput d), st2)"
    using decode_shape[OF assms(2) r assms(10,12,13), of N st q] by blast
  then have "decode N m st h q False = (Inr (Tuple1 d), st2)"
    using decode_wrap[of N m st h q False] by simp
  with d show "\<exists>d st1. decode N m st h q False = (Inr (Tuple1 d), st1) \<and>
            decode N m st h q True = (Inr (DecoderOutput d), st1)" by blast
  obtain y st3 where f: "forward N m st x True = (Inr (DecoderOutput y), st3)"
    using round_trip_shape[OF assms(2) r assms(3) aH(1) aW(1) aH(2) aW(2) bn assms(9) ic, of N]
    unfolding forward_decode_encode by blast
  then have "forward N m st x False = (Inr (Tuple1 y), st3)"
    using forward_wrap[of N m st x False] by simp
  with f show "\<exists>d st1. forward N m st x False = (Inr (Tuple1 d), st1) \<and>
            forward N m st x True = (Inr (DecoderOutput d), st1)" by blast
next
  fix m0 st0 x0 h0 q0
  show "\<exists>r. encode N m0 st0 x0 False = wrap_result Tuple1 r \<and>
        encode N m0 st0 x0 True = wrap_result VQEncoderOutput r"
    using encode_wrap[of N m0 st0 x0 False] encode_wrap[of N m0 st0 x0 True]
    by (intro exI[of _ "case encode N m0 st0 x0 True of (Inl e, s) \<Rightarrow> (Inl e, s)
          | (Inr out, s) \<Rightarrow> (Inr (output_tensor out), s)"]) simp
  show "\<exists>r. decode N m0 st0 h0 q0 False = wrap_result Tuple1 r \<and>
        decode N m0 st0 h0 q0 True = wrap_result DecoderOutput r"
    using decode_wrap[of N m0 st0 h0 q0 False] decode_wrap[of N m0 st0 h0 q0 True]
    by (intro exI[of _ "case decode N m0 st0 h0 q0 True of (Inl e, s) \<Rightarrow> (Inl e, s)
          | (Inr out, s) \<Rightarrow> (Inr (output_tensor out), s)"]) simp
  show "\<exists>r. forward N m0 st0 x0 False = wrap_result Tuple1 r \<and>
        forward N m0 st0 x0 True = wrap_result DecoderOutput r"
    using forward_wrap[of N m0 st0 x0 False] forward_wrap[of N m0 st0 x0 True]
    by (intro exI[of _ "case forward N m0 st0 x0 True of (Inl e, s) \<Rightarrow> (Inl e, s)
          | (Inr out, s) \<Rightarrow> (Inr (output_tensor out), s)"]) simp
qed

theorem return_dict_same_tensor_witness:
  "valid_config default_config \<and>
   init default_config = Inr (projr (init default_config)) \<and>
   fst (encode trace_numerics (projr (init default_config)) (new_state default_config)
        (image 1 3 8 8) False)
     = Inr (Tuple1
         \<lparr>shape = (1, 4, 2, 2),
          data = map (\<lambda>v. sdiv v (scale_factor default_config))
            ([Fin 20402, Fin 20401, Fin 20003, Fin 20002, Fin 20001, Fin 10002, Fin 10001]
             @ data (image 1 3 8 8))\<rparr>) \<and>
   fst (encode trace_numerics (projr (init default_config)) (new_state default_config)
        (image 1 3 8 8) True)
     = Inr (VQEncoderOutput
         \<lparr>shape = (1, 4, 2, 2),
          data = map (\<lambda>v. sdiv v (scale_factor default_config))
            ([Fin 20402, Fin 20401, Fin 20003, Fin 20002, Fin 20001, Fin 10002, Fin 10001]
             @ data (image 1 3 8 8))\<rparr>) \<and>
   fst (decode trace_numerics (projr (init default_config)) (new_state default_config)
        (image 1 4 2 2) True False)
     = Inr (Tuple1
         \<lparr>shape = (1, 3, 8, 8),
          data = [Fin 40002, Fin 40001, Fin 30015, Fin 30014, Fin 30013, Fin 30012, Fin 30011,
                  Fin 30010, Fin 30009, Fin 30008, Fin 30007, Fin 30006, Fin 30005, Fin 30004,
                  Fin 30003, Fin 30002, Fin 30101]
            @ map (\<lambda>v. smul v (scale_factor default_config)) (data (image 1 4 2 2))\<rparr>) \<and>
   fst (decode trace_numerics (projr (init default_config)) (new_state default_config)
        (image 1 4 2 2) True True)
     = Inr (DecoderOutput
         \<lparr>shape = (1, 3, 8, 8),
          data = [Fin 40002, Fin 40001, Fin 30015, Fin 30014, Fin 30013, Fin 30012, Fin 30011,
                  Fin 30010, Fin 30009, Fin 30008, Fin 30007, Fin 30006, Fin 30005, Fin 30004,
                  Fin 30003, Fin 30002, Fin 30101]
            @ map (\<lambda>v. smul v (scale_factor default_config)) (data (image 1 4 2 2))\<rparr>) \<and>
   forward trace_numerics (projr (init default_config)) (new_state default_config)
        (image 1 3 8 8) False
     = (Inr (Tuple1 (output_tensor (projr (fst (forward trace_numerics
            (projr (init default_config)) (new_state default_config) (image 1 3 8 8) True))))),
        snd (forward trace_numerics (projr (init default_config)) (new_state default_config)
            (image 1 3 8 8) True)) \<and>
   forward trace_numerics (projr (init default_config)) (new_state default_config)
        (image 1 3 8 8) True
     = (Inr (DecoderOutput (output_tensor (projr (fst (forward trace_numerics
            (projr (init default_config)) (new_state default_config) (image 1 3 8 8) True))))),
        snd (forward trace_numerics (projr (init default_config)) (new_state default_config)
            (image 1 3 8 8) True))"
proof -
  let ?m = "projr (init default_config)" and ?s = "new_state default_config"
  have "\<exists>d st1. forward trace_numerics ?m ?s (image 1 3 8 8) False = (Inr (Tuple1 d), st1) \<and>
            forward trace_numerics ?m ?s (image 1 3 8 8) True = (Inr (DecoderOutput d), st1)"
    using return_dict_same_tensor [OF valid_default init_default, of "image 1 3 8 8" 1 8 8
        ?s "image 1 4 2 2" 1 2 2 trace_numerics True]
    by (simp add: shape_image default_config_simps)
  then obtain d st1 where
      f: "forward trace_numerics ?m ?s (image 1 3 8 8) False = (Inr (Tuple1 d), st1)"
         "forward trace_numerics ?m ?s (image 1 3 8 8) True = (Inr (DecoderOutput d), st1)"
    by blast
  show ?thesis
    unfolding f default_encode_trace default_decode_trace
    using valid_default init_default by simp
qed

text \<open>
  C9, as the code has it: the tensor (or exception) a call returns depends on the
  state only through the mode and, in evaluation mode, the buffers; so a second call
  with the same input returns what the first returned. In evaluation mode no call
  changes the state, and \<^verbatim>\<open>decode\<close> of a constructed instance changes it in no mode.
\<close>

theorem calls_deterministic:
  "(same_mode st st' \<longrightarrow>
      fst (encode N m st x rd) = fst (encode N m st' x rd) \<and>
      fst (decode N m st h q rd) = fst (decode N m st' h q rd) \<and>
      fst (forward N m st x rd) = fst (forward N m st' x rd)) \<and>
   fst (encode N m (snd (encode N m st x rd)) x rd) = fst (encode N m st x rd) \<and>
   fst (decode N m (snd (decode N m st h q rd)) h q rd) = fst (decode N m st h q rd) \<and>
   fst (forward N m (snd (forward N m st x rd)) x rd) = fst (forward N m st x rd) \<and>
   (\<not> training st \<longrightarrow>
      snd (encode N m st x rd) = st \<and> snd (decode N m st h q rd) = st \<and>
      snd (forward N m st x rd) = st) \<and>
   (init cfg = Inr m \<longrightarrow> snd (decode N m st h q rd) = st)"
proof (intro conjI impI)
  assume sm: "same_mode st st'"
  show "fst (encode N m st x rd) = fst (encode N m st' x rd)"
    using encode_same_mode[OF sm] by blast
  show "fst (decode N m st h q rd) = fst (decode N m st' h q rd)"
    using decode_same_mode[OF sm] by blast
  show "fst (forward N m st x rd) = fst (forward N m st' x rd)"
    unfolding forward_decode_encode by (rule decode_encode_same_mode(1)[OF sm])
next
  show "fst (encode N m (snd (encode N m st x rd)) x rd) = fst (encode N m st x rd)"
    by (metis encode_same_mode encode_stays)
  show "fst (decode N m (snd (decode N m st h q rd)) h q rd) = fst (decode N m st h q rd)"
    by (metis decode_same_mode decode_stays)
  show "fst (forward N m (snd (forward N m st x rd)) x rd) = fst (forward N m st x rd)"
    unfolding forward_decode_encode
    by (rule decode_encode_same_mode(1)[OF decode_encode_stays, symmetric])
next
  assume ev: "\<not> training st"
  show "snd (encode N m st x rd) = st" using ev by (rule encode_eval)
  show "snd (decode N m st h q rd) = st" using ev by (rule decode_eval)
  show "snd (forward N m st x rd) = st"
    unfolding forward_decode_encode using ev by (rule decode_encode_eval)
next
  assume "init cfg = Inr m"
  then show "snd (decode N m st h q rd) = st" by (rule decode_pure)
qed

theorem calls_deterministic_witness:
  "\<not> training (eval_mode (new_state default_config)) \<and>
   snd (encode null_numerics (projr (init default_config)) (eval_mode (new_state default_config))
       (image 1 3 8 8) True) = eval_mode (new_state default_config) \<and>
   snd (forward null_numerics (projr (init default_config)) (eval_mode (new_state default_config))
       (image 1 3 8 8) True) = eval_mode (new_state default_config) \<and>
   init default_config = Inr (projr (init default_config)) \<and>
   snd (decode null_numerics (projr (init default_config)) (eval_mode (new_state default_config))
       (image 1 4 2 2) True True) = eval_mode (new_state default_config) \<and>
   fst (encode null_numerics (projr (init default_config))
         (snd (encode null_numerics (projr (init default_config))
               (eval_mode (new_state default_config)) (image 1 3 8 8) True))
         (image 1 3 8 8) True)
     = fst (encode null_numerics (projr (init default_config))
         (eval_mode (new_state default_config)) (image 1 3 8 8) True)"
  using calls_deterministic [of "eval_mode (new_state default_config)"
      "eval_mode (new_state default_config)" null_numerics "projr (init default_config)"
      "image 1 3 8 8" True "image 1 4 2 2" True default_config]
    init_default new_state_training(2)
  by simp

text \<open>
  In training mode, the mode of a newly constructed instance, \<^verbatim>\<open>encode\<close> writes the
  buffers of the batch normalisation \<^verbatim>\<open>down_blocks.3.1\<close>: the count of batches tracked
  goes from 0 to 1.
\<close>

theorem training_encode_counterexample:
  "training (new_state default_config) \<and>
   num_batches_tracked (buffers (new_state default_config) (''down_blocks'', [3, 1])) = 0 \<and>
   num_batches_tracked (buffers (snd (encode null_numerics (projr (init default_config))
       (new_state default_config) (image 1 3 8 8) True)) (''down_blocks'', [3, 1])) = 1 \<and>
   snd (encode null_numerics (projr (init default_config))
       (new_state default_config) (image 1 3 8 8) True) \<noteq> new_state default_config"
proof -
  let ?s = "snd (encode null_numerics (projr (init default_config))
       (new_state default_config) (image 1 3 8 8) True)"
  have 0: "num_batches_tracked (buffers (new_state default_config) (''down_blocks'', [3, 1])) = 0"
    by (simp add: new_state_def)
  have 1: "num_batches_tracked (buffers ?s (''down_blocks'', [3, 1])) = 1"
    by (simp add: encode_def default_model_encoder stateless_def shape_image
        pixel_unshuffle_shape_def conv2d_shape_def mixing_residual_block_shape_def
        batch_norm2d_def Let_def new_state_def null_numerics_def)
  from 0 1 have "?s \<noteq> new_state default_config" by auto
  with 0 1 show ?thesis by (simp add: new_state_training)
qed

end
